theory Spec2Isabelle
  imports Main
begin

section \<open>Python values and the parameter mapping\<close>

text \<open>
  The endpoint methods of \<^verbatim>\<open>helixswarm/endpoints/groups.py\<close> and
  \<^verbatim>\<open>helixswarm/endpoints/reviews.py\<close> turn keyword arguments into a \<^verbatim>\<open>dict\<close>
  and hand it to the client's \<^verbatim>\<open>_request\<close>. The values stored in those dicts are
  the ones the type annotations allow: \<^verbatim>\<open>Union[int, str, bool, List[str], List[int]]\<close>,
  and \<^verbatim>\<open>None\<close> for an argument that was left out.
\<close>

datatype pyval =
    VNone
  | VInt int
  | VStr string
  | VBool bool
  | VStrList "string list"
  | VIntList "int list"

text \<open>Python's truth test, as \<^verbatim>\<open>if x:\<close> applies it.\<close>

fun truthy :: "pyval \<Rightarrow> bool" where
  "truthy VNone = False"
| "truthy (VInt n) = (n \<noteq> 0)"
| "truthy (VStr s) = (s \<noteq> [])"
| "truthy (VBool b) = b"
| "truthy (VStrList xs) = (xs \<noteq> [])"
| "truthy (VIntList ns) = (ns \<noteq> [])"

text \<open>
  An argument annotated \<^verbatim>\<open>Optional[T]\<close> is a \<open>T option\<close>; these functions give the
  Python value it stands for.
\<close>

definition int_arg :: "int option \<Rightarrow> pyval" where
  "int_arg x = (case x of None \<Rightarrow> VNone | Some n \<Rightarrow> VInt n)"

definition str_arg :: "string option \<Rightarrow> pyval" where
  "str_arg x = (case x of None \<Rightarrow> VNone | Some s \<Rightarrow> VStr s)"

definition bool_arg :: "bool option \<Rightarrow> pyval" where
  "bool_arg x = (case x of None \<Rightarrow> VNone | Some b \<Rightarrow> VBool b)"

definition strs_arg :: "string list option \<Rightarrow> pyval" where
  "strs_arg x = (case x of None \<Rightarrow> VNone | Some xs \<Rightarrow> VStrList xs)"

definition ints_arg :: "int list option \<Rightarrow> pyval" where
  "ints_arg x = (case x of None \<Rightarrow> VNone | Some ns \<Rightarrow> VIntList ns)"

text \<open>
  A \<^verbatim>\<open>dict\<close> keeps its keys in insertion order: an association list in which every
  key occurs once. \<open>dict_set d k v\<close> is \<^verbatim>\<open>d[k] = v\<close>: an existing key keeps its
  place, a new one goes to the end.
\<close>

type_synonym dict = "(string \<times> pyval) list"

fun dict_set :: "dict \<Rightarrow> string \<Rightarrow> pyval \<Rightarrow> dict" where
  "dict_set [] k v = [(k, v)]"
| "dict_set ((k', v') # d) k v =
     (if k' = k then (k, v) # d else (k', v') # dict_set d k v)"

definition dict_get :: "dict \<Rightarrow> string \<Rightarrow> pyval option" where
  "dict_get d k = map_of d k"

definition has_key :: "dict \<Rightarrow> string \<Rightarrow> bool" where
  "has_key d k = (dict_get d k \<noteq> None)"

text \<open>\<open>set_if c k v d\<close> is the statement \<^verbatim>\<open>if c: d[k] = v\<close>.\<close>

definition set_if :: "bool \<Rightarrow> string \<Rightarrow> pyval \<Rightarrow> dict \<Rightarrow> dict" where
  "set_if c k v d = (if c then dict_set d k v else d)"

text \<open>\<open>set_some x k f d\<close> is the statement \<^verbatim>\<open>if x is not None: d[k] = f(x)\<close>.\<close>

definition set_some :: "'a option \<Rightarrow> string \<Rightarrow> ('a \<Rightarrow> pyval) \<Rightarrow> dict \<Rightarrow> dict" where
  "set_some x k f d = (case x of None \<Rightarrow> d | Some y \<Rightarrow> dict_set d k (f y))"

subsection \<open>Built-ins the methods call\<close>

text \<open>\<^verbatim>\<open>sep.join(xs)\<close> on a list of strings.\<close>

fun py_join :: "string \<Rightarrow> string list \<Rightarrow> string" where
  "py_join sep [] = []"
| "py_join sep [x] = x"
| "py_join sep (x # y # ys) = x @ sep @ py_join sep (y # ys)"

text \<open>The list a truthy \<^verbatim>\<open>Optional[List[str]]\<close> holds (\<^verbatim>\<open>None\<close> is never joined).\<close>

definition list_of :: "'a list option \<Rightarrow> 'a list" where
  "list_of x = (case x of None \<Rightarrow> [] | Some xs \<Rightarrow> xs)"

text \<open>\<^verbatim>\<open>int(b)\<close> on a bool, and \<^verbatim>\<open>str(n)\<close> on an int (decimal, with a sign).\<close>

definition py_int_bool :: "bool \<Rightarrow> int" where
  "py_int_bool b = (if b then 1 else 0)"

definition digit_char :: "nat \<Rightarrow> char" where
  "digit_char d = ''0123456789'' ! (d mod 10)"

fun nat_digits :: "nat \<Rightarrow> string" where
  "nat_digits n =
     (if n < 10 then [digit_char n] else nat_digits (n div 10) @ [digit_char (n mod 10)])"

definition py_str_int :: "int \<Rightarrow> string" where
  "py_str_int i = (if i < 0 then CHR ''-'' # nat_digits (nat (- i)) else nat_digits (nat i))"

section \<open>The client the endpoint groups hold\<close>

text \<open>
  Both classes keep a reference \<^verbatim>\<open>self.swarm\<close> to the client and use three things of
  it: the attribute \<^verbatim>\<open>api_version\<close>, the method \<^verbatim>\<open>get_version()\<close> and the method
  \<^verbatim>\<open>_request(method, path, params=, data=, json=)\<close>. The client is not part of these
  two files, so it is a parameter of the model: a record of the negotiated version
  and of what the two methods answer. Every call made on the client is appended to
  a log; an answer may depend on the calls made before it.
\<close>

record request =
  req_method :: string
  req_path :: string
  req_params :: "dict option"
  req_data :: "dict option"
  req_json :: "dict option"

datatype event = Request request | GetVersion

record version_info =
  apiVersions :: "int list"

record ('e, 'j) swarm =
  api_version :: int
  version_fn :: "event list \<Rightarrow> version_info"
  request_fn :: "event list \<Rightarrow> request \<Rightarrow> 'e + 'j"

text \<open>
  The exceptions. \<^verbatim>\<open>SwarmError\<close> is what \<^verbatim>\<open>Groups.create\<close> raises for a missing
  member list (the specification's ValidationError), \<^verbatim>\<open>SwarmCompatibleError\<close> is
  raised by the version guards (the specification's CompatibilityError); both carry
  their message. Whatever the transport raises is passed on unchanged and is kept
  apart as \<open>TransportError\<close>.
\<close>

datatype 'e error =
    SwarmError string
  | SwarmCompatibleError string
  | TransportError 'e

text \<open>A method call: from the log so far to its outcome and the log afterwards.\<close>

type_synonym ('e, 'j) call = "event list \<Rightarrow> ('e error + 'j) \<times> event list"

definition py_raise :: "'e error \<Rightarrow> ('e, 'j) call" where
  "py_raise e s = (Inl e, s)"

definition response :: "'e + 'j \<Rightarrow> 'e error + 'j" where
  "response r = (case r of Inl e \<Rightarrow> Inl (TransportError e) | Inr j \<Rightarrow> Inr j)"

text \<open>
  Modelled from the spec: \<^verbatim>\<open>swarm._request\<close>, the shared request method of the client
  (section 6: it takes the HTTP method, the path and at most one of a query mapping,
  a form body and a JSON body, returns the decoded JSON value and fails by
  propagating the transport's error). The call is recorded in the log.
\<close>

definition swarm_request ::
  "('e, 'j) swarm \<Rightarrow> string \<Rightarrow> string \<Rightarrow> dict option \<Rightarrow> dict option \<Rightarrow> dict option
    \<Rightarrow> ('e, 'j) call" where
  "swarm_request sw method path params data json s =
     (let r = \<lparr>req_method = method, req_path = path, req_params = params,
                req_data = data, req_json = json\<rparr>
      in (response (request_fn sw s r), s @ [Request r]))"

text \<open>
  Modelled from the spec: \<^verbatim>\<open>swarm.get_version()\<close> (section 6: it returns the version
  metadata with the sequence \<^verbatim>\<open>apiVersions\<close>). It is a call on the client of its own,
  recorded as \<open>GetVersion\<close>.
\<close>

definition get_version :: "('e, 'j) swarm \<Rightarrow> event list \<Rightarrow> version_info \<times> event list" where
  "get_version sw s = (version_fn sw s, s @ [GetVersion])"

text \<open>
  Modelled from the spec: the decorator \<^verbatim>\<open>minimal_version\<close> of \<^verbatim>\<open>helixswarm.helpers\<close>
  (section 4.1: an operation under it requires the negotiated API version to be at
  least the given one and fails with a CompatibilityError otherwise; section 7: the
  error is raised before any request is sent). The text of its message is not
  given; the model puts the name of the decorated method there.
\<close>

definition minimal_version ::
  "int \<Rightarrow> string \<Rightarrow> ('e, 'j) swarm \<Rightarrow> ('e, 'j) call \<Rightarrow> ('e, 'j) call" where
  "minimal_version version name sw body s =
     (if api_version sw < version then py_raise (SwarmCompatibleError name) s else body s)"

section \<open>Reviews\<close>

text \<open>\<^verbatim>\<open>Reviews.get_transitions\<close> (reviews.py, lines 167 to 201).\<close>

definition reviews_get_transitions_params :: "string option \<Rightarrow> dict" where
  "reviews_get_transitions_params up_voters =
     (let params = [];
          params = set_if (truthy (str_arg up_voters)) ''upVoters'' (str_arg up_voters) params
      in params)"

definition reviews_get_transitions ::
  "('e, 'j) swarm \<Rightarrow> int \<Rightarrow> string option \<Rightarrow> ('e, 'j) call" where
  "reviews_get_transitions sw review_id up_voters s =
     (if api_version sw < 9
      then py_raise (SwarmCompatibleError ''get_transitions is supported with API v9+'') s
      else swarm_request sw ''GET'' (''reviews/'' @ py_str_int review_id @ ''/transitions'')
             (Some (reviews_get_transitions_params up_voters)) None None s)"

text \<open>
  \<^verbatim>\<open>Reviews.get\<close> (reviews.py, lines 11 to 134). Lines 97 to 132 build \<^verbatim>\<open>params\<close>;
  the only \<^verbatim>\<open>raise\<close> stands right after \<^verbatim>\<open>params['author'] = authors\<close>, under
  \<^verbatim>\<open>if authors:\<close>. \<open>reviews_get_params\<close> is that part of the body: the exception or
  the finished mapping. Line 134 sends it.
\<close>

definition reviews_get_params ::
  "('e, 'j) swarm \<Rightarrow> int option \<Rightarrow> int option \<Rightarrow> string list option \<Rightarrow> string list option
    \<Rightarrow> int list option \<Rightarrow> bool option \<Rightarrow> int list option \<Rightarrow> string option
    \<Rightarrow> string list option \<Rightarrow> string list option \<Rightarrow> string list option \<Rightarrow> bool option
    \<Rightarrow> string option \<Rightarrow> string option \<Rightarrow> bool option \<Rightarrow> 'e error + dict" where
  "reviews_get_params sw after limit fields' authors changes has_reviewers ids keywords
      participants projects states passes_tests not_updated_since has_voted my_comments =
     (let params = [];
          params = set_if (truthy (int_arg after)) ''after'' (int_arg after) params;
          params = set_if (truthy (int_arg limit)) ''max'' (int_arg limit) params;
          params = set_if (truthy (strs_arg fields')) ''fields''
                     (VStr (py_join '','' (list_of fields'))) params;
          params = set_if (truthy (strs_arg authors)) ''author'' (strs_arg authors) params
      in if truthy (strs_arg authors) \<and> api_version sw < 2
         then Inl (SwarmCompatibleError ''author field is supported from API version >= 2'')
         else
          (let params = set_if (truthy (ints_arg changes)) ''change'' (ints_arg changes) params;
               params = set_some has_reviewers ''hasReviewers''
                          (\<lambda>b. VStr (py_str_int (py_int_bool b))) params;
               params = set_if (truthy (ints_arg ids)) ''ids'' (ints_arg ids) params;
               params = set_if (truthy (str_arg keywords)) ''keywords'' (str_arg keywords) params;
               params = set_if (truthy (strs_arg participants)) ''participants''
                          (strs_arg participants) params;
               params = set_if (truthy (strs_arg projects)) ''project'' (strs_arg projects) params;
               params = set_if (truthy (strs_arg states)) ''state'' (strs_arg states) params;
               params = set_some passes_tests ''passesTests''
                          (\<lambda>b. VStr (py_str_int (py_int_bool b))) params;
               params = set_if (truthy (str_arg not_updated_since)) ''notUpdatedSince''
                          (str_arg not_updated_since) params;
               params = set_if (truthy (str_arg has_voted)) ''hasVoted'' (str_arg has_voted) params;
               params = set_some my_comments ''myComments''
                          (\<lambda>b. VStr (py_str_int (py_int_bool b))) params
           in Inr params))"

definition reviews_get ::
  "('e, 'j) swarm \<Rightarrow> int option \<Rightarrow> int option \<Rightarrow> string list option \<Rightarrow> string list option
    \<Rightarrow> int list option \<Rightarrow> bool option \<Rightarrow> int list option \<Rightarrow> string option
    \<Rightarrow> string list option \<Rightarrow> string list option \<Rightarrow> string list option \<Rightarrow> bool option
    \<Rightarrow> string option \<Rightarrow> string option \<Rightarrow> bool option \<Rightarrow> ('e, 'j) call" where
  "reviews_get sw after limit fields' authors changes has_reviewers ids keywords
      participants projects states passes_tests not_updated_since has_voted my_comments s =
     (case reviews_get_params sw after limit fields' authors changes has_reviewers ids keywords
             participants projects states passes_tests not_updated_since has_voted my_comments of
        Inl e \<Rightarrow> py_raise e s
      | Inr params \<Rightarrow> swarm_request sw ''GET'' ''reviews'' (Some params) None None s)"

text \<open>\<^verbatim>\<open>Reviews.get_info\<close> (reviews.py, lines 136 to 165).\<close>

definition reviews_get_info_params :: "string list option \<Rightarrow> dict" where
  "reviews_get_info_params fields' =
     (let params = [];
          params = set_if (truthy (strs_arg fields')) ''fields''
                     (VStr (py_join '','' (list_of fields'))) params
      in params)"

definition reviews_get_info ::
  "('e, 'j) swarm \<Rightarrow> int \<Rightarrow> string list option \<Rightarrow> ('e, 'j) call" where
  "reviews_get_info sw review_id fields' s =
     swarm_request sw ''GET'' (''reviews/'' @ py_str_int review_id)
       (Some (reviews_get_info_params fields')) None None s"

text \<open>
  \<^verbatim>\<open>Reviews.create\<close> (reviews.py, lines 203 to 254). \<open>reviews_create_data\<close> is lines 232
  to 252: each of the two guards stands right after the assignment of its field.
\<close>

definition reviews_create_data ::
  "('e, 'j) swarm \<Rightarrow> int \<Rightarrow> string option \<Rightarrow> string list option \<Rightarrow> string list option
    \<Rightarrow> string list option \<Rightarrow> 'e error + dict" where
  "reviews_create_data sw change description reviewers required_reviewers reviewer_groups =
     (let data = dict_set [] ''change'' (VInt change);
          data = set_if (truthy (str_arg description)) ''description'' (str_arg description) data;
          data = set_if (truthy (strs_arg reviewers)) ''reviewers'' (strs_arg reviewers) data;
          data = set_if (truthy (strs_arg required_reviewers)) ''requiredReviewers''
                   (strs_arg required_reviewers) data
      in if truthy (strs_arg required_reviewers) \<and> api_version sw = 1
         then Inl (SwarmCompatibleError
                ''required_reviewers field is supported from API version > 1'')
         else
          (let data = set_if (truthy (strs_arg reviewer_groups)) ''reviewerGroups''
                        (strs_arg reviewer_groups) data
           in if truthy (strs_arg reviewer_groups) \<and> api_version sw < 7
              then Inl (SwarmCompatibleError
                     ''reviewer_groups field is supported from API version > 6'')
              else Inr data))"

definition reviews_create ::
  "('e, 'j) swarm \<Rightarrow> int \<Rightarrow> string option \<Rightarrow> string list option \<Rightarrow> string list option
    \<Rightarrow> string list option \<Rightarrow> ('e, 'j) call" where
  "reviews_create sw change description reviewers required_reviewers reviewer_groups s =
     (case reviews_create_data sw change description reviewers required_reviewers
             reviewer_groups of
        Inl e \<Rightarrow> py_raise e s
      | Inr data \<Rightarrow> swarm_request sw ''POST'' ''reviews'' None (Some data) None s)"

text \<open>\<^verbatim>\<open>Reviews.archive\<close> (reviews.py, lines 256 to 281); both arguments are required.\<close>

definition reviews_archive_data :: "string \<Rightarrow> string \<Rightarrow> dict" where
  "reviews_archive_data not_updated_since description =
     (let data = dict_set [] ''notUpdatedSince'' (VStr not_updated_since);
          data = dict_set data ''description'' (VStr description)
      in data)"

definition reviews_archive :: "('e, 'j) swarm \<Rightarrow> string \<Rightarrow> string \<Rightarrow> ('e, 'j) call" where
  "reviews_archive sw not_updated_since description s =
     (if api_version sw < 6
      then py_raise (SwarmCompatibleError ''archive is supported with API v6+'') s
      else swarm_request sw ''POST'' ''reviews/archive'' None
             (Some (reviews_archive_data not_updated_since description)) None s)"

text \<open>\<^verbatim>\<open>Reviews.cleanup\<close> (reviews.py, lines 283 to 315).\<close>

definition reviews_cleanup_data :: "bool option \<Rightarrow> dict" where
  "reviews_cleanup_data reopen =
     (let data = [];
          data = set_if (truthy (bool_arg reopen)) ''reopen'' (bool_arg reopen) data
      in data)"

definition reviews_cleanup :: "('e, 'j) swarm \<Rightarrow> int \<Rightarrow> bool option \<Rightarrow> ('e, 'j) call" where
  "reviews_cleanup sw review_id reopen s =
     (if api_version sw < 6
      then py_raise (SwarmCompatibleError ''cleanup is supported with API v6+'') s
      else swarm_request sw ''POST'' (''reviews/'' @ py_str_int review_id @ ''/cleanup'') None
             (Some (reviews_cleanup_data reopen)) None s)"

section \<open>Groups\<close>

text \<open>
  Every method of \<^verbatim>\<open>Groups\<close> stands under \<^verbatim>\<open>@minimal_version(2)\<close>.
  \<^verbatim>\<open>Groups.get\<close> (groups.py, lines 12 to 63).
\<close>

definition groups_get_params ::
  "string option \<Rightarrow> int option \<Rightarrow> string list option \<Rightarrow> string option \<Rightarrow> dict" where
  "groups_get_params after limit fields' keywords =
     (let params = [];
          params = set_if (truthy (str_arg after)) ''after'' (str_arg after) params;
          params = set_if (truthy (int_arg limit)) ''max'' (int_arg limit) params;
          params = set_if (truthy (strs_arg fields')) ''fields''
                     (VStr (py_join '','' (list_of fields'))) params;
          params = set_if (truthy (str_arg keywords)) ''keywords'' (str_arg keywords) params
      in params)"

definition groups_get ::
  "('e, 'j) swarm \<Rightarrow> string option \<Rightarrow> int option \<Rightarrow> string list option \<Rightarrow> string option
    \<Rightarrow> ('e, 'j) call" where
  "groups_get sw after limit fields' keywords =
     minimal_version 2 ''get'' sw
       (swarm_request sw ''GET'' ''groups''
          (Some (groups_get_params after limit fields' keywords)) None None)"

text \<open>\<^verbatim>\<open>Groups.get_info\<close> (groups.py, lines 65 to 96).\<close>

definition groups_get_info_params :: "string list option \<Rightarrow> dict" where
  "groups_get_info_params fields' =
     (let params = [];
          params = set_if (truthy (strs_arg fields')) ''fields''
                     (VStr (py_join '','' (list_of fields'))) params
      in params)"

definition groups_get_info ::
  "('e, 'j) swarm \<Rightarrow> string \<Rightarrow> string list option \<Rightarrow> ('e, 'j) call" where
  "groups_get_info sw identifier fields' =
     minimal_version 2 ''get_info'' sw
       (swarm_request sw ''GET'' (''groups/'' @ identifier)
          (Some (groups_get_info_params fields')) None None)"

text \<open>
  \<^verbatim>\<open>Groups.create\<close> (groups.py, lines 98 to 233). \<open>groups_create_data\<close> is lines 174
  to 227: the exception of line 179, raised after \<^verbatim>\<open>data['Group']\<close> is set and before
  anything else, or the finished payload. Lines 229 to 233 ask the client for its
  version metadata and choose the keyword the payload is passed under.
\<close>

definition groups_create_data ::
  "string \<Rightarrow> string list option \<Rightarrow> string list option \<Rightarrow> string list option
    \<Rightarrow> string option \<Rightarrow> string option \<Rightarrow> string option
    \<Rightarrow> bool option \<Rightarrow> bool option \<Rightarrow> bool option
    \<Rightarrow> int option \<Rightarrow> int option \<Rightarrow> int option \<Rightarrow> int option \<Rightarrow> int option
    \<Rightarrow> int option \<Rightarrow> int option \<Rightarrow> 'e error + dict" where
  "groups_create_data identifier users owners subgroups name description email_address
      notify_reviews notify_commits use_mailing_list max_results max_scan_rows
      max_lock_time max_open_files max_memory timeout password_timeout =
     (let data = [];
          data = dict_set data ''Group'' (VStr identifier)
      in if \<not> (truthy (strs_arg users) \<or> truthy (strs_arg owners) \<or> truthy (strs_arg subgroups))
         then Inl (SwarmError ''At least one of users, owners, or subgroups is required'')
         else
          (let data = set_if (truthy (strs_arg users)) ''Users'' (strs_arg users) data;
               data = set_if (truthy (strs_arg owners)) ''Owners'' (strs_arg owners) data;
               data = set_if (truthy (strs_arg subgroups)) ''Subgroups'' (strs_arg subgroups) data;
               data = set_if (truthy (str_arg name)) ''config[name]'' (str_arg name) data;
               data = set_if (truthy (str_arg description)) ''config[description]''
                        (str_arg description) data;
               data = set_if (truthy (str_arg email_address)) ''config[emailAddress]''
                        (str_arg email_address) data;
               data = set_if (truthy (bool_arg notify_reviews)) ''config[emailFlags][reviews]''
                        (bool_arg notify_reviews) data;
               data = set_if (truthy (bool_arg notify_commits)) ''config[emailFlags][commits]''
                        (bool_arg notify_commits) data;
               data = set_if (truthy (bool_arg use_mailing_list)) ''config[useMailingList]''
                        (bool_arg use_mailing_list) data;
               data = set_if (truthy (int_arg max_results)) ''MaxResults'' (int_arg max_results) data;
               data = set_if (truthy (int_arg max_scan_rows)) ''MaxScanRows''
                        (int_arg max_scan_rows) data;
               data = set_if (truthy (int_arg max_lock_time)) ''MaxLockTime''
                        (int_arg max_lock_time) data;
               data = set_if (truthy (int_arg max_open_files)) ''MaxOpenFiles''
                        (int_arg max_open_files) data;
               data = set_if (truthy (int_arg max_memory)) ''MaxMemory'' (int_arg max_memory) data;
               data = set_if (truthy (int_arg timeout)) ''Timeout'' (int_arg timeout) data;
               data = set_if (truthy (int_arg password_timeout)) ''PasswordTimeout''
                        (int_arg password_timeout) data
           in Inr data))"

definition groups_create ::
  "('e, 'j) swarm \<Rightarrow> string \<Rightarrow> string list option \<Rightarrow> string list option \<Rightarrow> string list option
    \<Rightarrow> string option \<Rightarrow> string option \<Rightarrow> string option
    \<Rightarrow> bool option \<Rightarrow> bool option \<Rightarrow> bool option
    \<Rightarrow> int option \<Rightarrow> int option \<Rightarrow> int option \<Rightarrow> int option \<Rightarrow> int option
    \<Rightarrow> int option \<Rightarrow> int option \<Rightarrow> ('e, 'j) call" where
  "groups_create sw identifier users owners subgroups name description email_address
      notify_reviews notify_commits use_mailing_list max_results max_scan_rows
      max_lock_time max_open_files max_memory timeout password_timeout =
     minimal_version 2 ''create'' sw
       (\<lambda>s. case groups_create_data identifier users owners subgroups name description
                   email_address notify_reviews notify_commits use_mailing_list max_results
                   max_scan_rows max_lock_time max_open_files max_memory timeout
                   password_timeout of
               Inl e \<Rightarrow> py_raise e s
             | Inr data \<Rightarrow>
                 (let (version, s1) = get_version sw s
                  in if 11 \<in> set (apiVersions version)
                     then swarm_request sw ''POST'' ''groups'' None None (Some data) s1
                     else swarm_request sw ''POST'' ''groups'' None (Some data) None s1))"

text \<open>\<^verbatim>\<open>Groups.edit\<close> (groups.py, lines 235 to 326).\<close>

definition groups_edit_data ::
  "string list option \<Rightarrow> string list option \<Rightarrow> string list option
    \<Rightarrow> string option \<Rightarrow> string option \<Rightarrow> string option
    \<Rightarrow> bool option \<Rightarrow> bool option \<Rightarrow> bool option \<Rightarrow> dict" where
  "groups_edit_data users owners subgroups name description email_address
      notify_reviews notify_commits use_mailing_list =
     (let data = [];
          data = set_if (truthy (strs_arg users)) ''Users'' (strs_arg users) data;
          data = set_if (truthy (strs_arg owners)) ''Owners'' (strs_arg owners) data;
          data = set_if (truthy (strs_arg subgroups)) ''Subgroups'' (strs_arg subgroups) data;
          data = set_if (truthy (str_arg name)) ''config[name]'' (str_arg name) data;
          data = set_if (truthy (str_arg description)) ''config[description]''
                   (str_arg description) data;
          data = set_if (truthy (str_arg email_address)) ''config[emailAddress]''
                   (str_arg email_address) data;
          data = set_if (truthy (bool_arg notify_reviews)) ''config[emailFlags][reviews]''
                   (bool_arg notify_reviews) data;
          data = set_if (truthy (bool_arg notify_commits)) ''config[emailFlags][commits]''
                   (bool_arg notify_commits) data;
          data = set_if (truthy (bool_arg use_mailing_list)) ''config[useMailingList]''
                   (bool_arg use_mailing_list) data
      in data)"

definition groups_edit ::
  "('e, 'j) swarm \<Rightarrow> string \<Rightarrow> string list option \<Rightarrow> string list option \<Rightarrow> string list option
    \<Rightarrow> string option \<Rightarrow> string option \<Rightarrow> string option
    \<Rightarrow> bool option \<Rightarrow> bool option \<Rightarrow> bool option \<Rightarrow> ('e, 'j) call" where
  "groups_edit sw identifier users owners subgroups name description email_address
      notify_reviews notify_commits use_mailing_list =
     minimal_version 2 ''edit'' sw
       (swarm_request sw ''PATCH'' (''groups/'' @ identifier) None
          (Some (groups_edit_data users owners subgroups name description email_address
                   notify_reviews notify_commits use_mailing_list)) None)"

text \<open>\<^verbatim>\<open>Groups.delete\<close> (groups.py, lines 328 to 340): no mapping is passed.\<close>

definition groups_delete :: "('e, 'j) swarm \<Rightarrow> string \<Rightarrow> ('e, 'j) call" where
  "groups_delete sw identifier =
     minimal_version 2 ''delete'' sw
       (swarm_request sw ''DELETE'' (''groups/'' @ identifier) None None None)"

section \<open>What a call did to the client\<close>

text \<open>
  The claims speak of the request a call dispatched, of the mapping it carried and of
  the exception a method raised by itself. These functions read them off the
  outcome \<open>out\<close> of a call that started with the log \<open>s\<close>.
\<close>

definition new_events :: "event list \<Rightarrow> 'r \<times> event list \<Rightarrow> event list" where
  "new_events s out = drop (length s) (snd out)"

fun requests :: "event list \<Rightarrow> request list" where
  "requests [] = []"
| "requests (Request r # es) = r # requests es"
| "requests (GetVersion # es) = requests es"

text \<open>The call ended with an exception raised by the endpoint method or its guard.\<close>

definition raised_own :: "'e error + 'j \<Rightarrow> bool" where
  "raised_own res =
     (case res of
        Inl (SwarmError m) \<Rightarrow> True
      | Inl (SwarmCompatibleError m) \<Rightarrow> True
      | Inl (TransportError e) \<Rightarrow> False
      | Inr j \<Rightarrow> False)"

text \<open>
  The request the call ended with, and the log the request method saw when it was
  invoked; \<open>None\<close> when the call added nothing to the log or did not end with a
  request.
\<close>

definition dispatched :: "event list \<Rightarrow> 'r \<times> event list \<Rightarrow> (event list \<times> request) option" where
  "dispatched s out =
     (case new_events s out of
        [] \<Rightarrow> None
      | e # es \<Rightarrow>
          (case last (e # es) of
             Request r \<Rightarrow> Some (butlast (snd out), r)
           | GetVersion \<Rightarrow> None))"

text \<open>
  Atomic with respect to the transport: the call raised by itself and left the log as
  it was, or it kept the log, invoked the request method exactly once, as its last
  step, and its outcome is the outcome of that invocation.
\<close>

definition atomic_call ::
  "('e, 'j) swarm \<Rightarrow> event list \<Rightarrow> ('e error + 'j) \<times> event list \<Rightarrow> bool" where
  "atomic_call sw s out =
     (if raised_own (fst out) then snd out = s
      else take (length s) (snd out) = s
         \<and> length (requests (new_events s out)) = 1
         \<and> (case dispatched s out of
              None \<Rightarrow> False
            | Some (s', r) \<Rightarrow> fst out = response (request_fn sw s' r)))"

text \<open>
  Pass-through: the call ended with a request, and what the request method answered
  to it is what the call returns, a decoded value as it is and a failure of the
  transport as that failure.
\<close>

definition passes_through ::
  "('e, 'j) swarm \<Rightarrow> event list \<Rightarrow> ('e error + 'j) \<times> event list \<Rightarrow> bool" where
  "passes_through sw s out =
     (case dispatched s out of
        None \<Rightarrow> False
      | Some (s', r) \<Rightarrow>
          (case request_fn sw s' r of
             Inl e \<Rightarrow> fst out = Inl (TransportError e)
           | Inr j \<Rightarrow> fst out = Inr j))"

text \<open>The mapping a request carries, under whichever keyword it was passed.\<close>

definition mapping_of :: "request \<Rightarrow> dict" where
  "mapping_of r =
     (case req_params r of
        Some p \<Rightarrow> p
      | None \<Rightarrow>
          (case req_data r of
             Some d \<Rightarrow> d
           | None \<Rightarrow> (case req_json r of Some j \<Rightarrow> j | None \<Rightarrow> [])))"

text \<open>Each listed key is in the mapping exactly when the condition beside it holds.\<close>

definition keys_iff :: "dict \<Rightarrow> (string \<times> bool) list \<Rightarrow> bool" where
  "keys_iff d tbl = list_all (\<lambda>(k, c). has_key d k = c) tbl"

text \<open>An optional list argument that was left out or is the empty list.\<close>

definition unset_or_empty :: "'a list option \<Rightarrow> bool" where
  "unset_or_empty x = (x = None \<or> x = Some [])"

text \<open>The two kinds of exception the methods raise by themselves.\<close>

definition is_validation_error :: "'e error + 'j \<Rightarrow> bool" where
  "is_validation_error res =
     (case res of
        Inl (SwarmError m) \<Rightarrow> True
      | Inl (SwarmCompatibleError m) \<Rightarrow> False
      | Inl (TransportError e) \<Rightarrow> False
      | Inr j \<Rightarrow> False)"

definition is_compatibility_error :: "'e error + 'j \<Rightarrow> bool" where
  "is_compatibility_error res =
     (case res of
        Inl (SwarmError m) \<Rightarrow> False
      | Inl (SwarmCompatibleError m) \<Rightarrow> True
      | Inl (TransportError e) \<Rightarrow> False
      | Inr j \<Rightarrow> False)"

section \<open>A concrete client\<close>

text \<open>
  A client with negotiated version \<open>v\<close> and supported versions \<open>vs\<close> whose transport
  answers every request with the decoded value \<open>j\<close>; the examples below run on it.
\<close>

definition swarm_of :: "int \<Rightarrow> int list \<Rightarrow> 'j \<Rightarrow> (unit, 'j) swarm" where
  "swarm_of v vs j =
     \<lparr>api_version = v, version_fn = (\<lambda>_. \<lparr>apiVersions = vs\<rparr>), request_fn = (\<lambda>_ _. Inr j)\<rparr>"

section \<open>Looking keys up in a built mapping\<close>

lemma dict_get_Nil [simp]: "dict_get [] k = None"
  by (simp add: dict_get_def)

lemma dict_get_Cons [simp]:
  "dict_get ((k, v) # d) k' = (if k' = k then Some v else dict_get d k')"
  by (simp add: dict_get_def)

lemma dict_get_dict_set [simp]:
  "dict_get (dict_set d k v) k' = (if k' = k then Some v else dict_get d k')"
  by (induction d k v rule: dict_set.induct) (auto simp: dict_get_def)

lemma dict_get_set_if [simp]:
  "dict_get (set_if c k v d) k' = (if k' = k \<and> c then Some v else dict_get d k')"
  by (simp add: set_if_def)

lemma dict_get_set_some [simp]:
  "dict_get (set_some x k f d) k' =
     (if k' = k \<and> x \<noteq> None then map_option f x else dict_get d k')"
  by (cases x) (simp_all add: set_some_def)

text \<open>The same for membership, without a case distinction in the result.\<close>

lemma has_key_Nil [simp]: "has_key [] k = False"
  by (simp add: has_key_def)

lemma has_key_Cons [simp]: "has_key ((k, v) # d) k' = (k' = k \<or> has_key d k')"
  by (auto simp add: has_key_def)

lemma has_key_dict_set [simp]: "has_key (dict_set d k v) k' = (k' = k \<or> has_key d k')"
  by (simp add: has_key_def)

lemma has_key_set_if [simp]: "has_key (set_if c k v d) k' = (k' = k \<and> c \<or> has_key d k')"
  by (auto simp add: has_key_def)

lemma has_key_set_some [simp]:
  "has_key (set_some x k f d) k' = (k' = k \<and> x \<noteq> None \<or> has_key d k')"
  by (cases x) (simp_all add: has_key_def)

section \<open>Running the primitives\<close>

lemmas arg_defs = int_arg_def str_arg_def bool_arg_def strs_arg_def ints_arg_def list_of_def

lemmas run_defs = swarm_of_def response_def set_if_def set_some_def arg_defs
  py_str_int_def py_int_bool_def digit_char_def py_raise_def dispatched_def new_events_def


lemma swarm_request_run:
  "swarm_request sw m p ps d j s =
     (response (request_fn sw s
        \<lparr>req_method = m, req_path = p,
            req_params = ps, req_data = d, req_json = j\<rparr>),
      s @ [Request \<lparr>req_method = m, req_path = p,
            req_params = ps, req_data = d, req_json = j\<rparr>])"
  by (simp add: swarm_request_def Let_def)

lemma minimal_version_run:
  "minimal_version v n sw body s =
     (if api_version sw < v then (Inl (SwarmCompatibleError n), s) else body s)"
  by (simp add: minimal_version_def py_raise_def)

lemma new_events_same [simp]: "new_events s (x, s) = []"
  by (simp add: new_events_def)

lemma new_events_append [simp]: "new_events s (x, s @ es) = es"
  by (simp add: new_events_def)

lemma dispatched_none [simp]: "dispatched s (x, s) = None"
  by (simp add: dispatched_def)

lemma dispatched_request [simp]: "dispatched s (x, s @ [Request r]) = Some (s, r)"
  by (simp add: dispatched_def)

lemma dispatched_version_request [simp]:
  "dispatched s (x, s @ [GetVersion, Request r]) = Some (s @ [GetVersion], r)"
  by (simp add: dispatched_def butlast_append)

lemma raised_own_simps [simp]:
  "raised_own (Inl (SwarmError m))"
  "raised_own (Inl (SwarmCompatibleError m))"
  "\<not> raised_own (Inl (TransportError e))"
  "\<not> raised_own (Inr j)"
  by (simp_all add: raised_own_def)

lemma raised_own_response [simp]: "\<not> raised_own (response x)"
  by (cases x) (simp_all add: response_def)

lemma truthy_strs_arg: "truthy (strs_arg x) = (\<not> unset_or_empty x)"
  by (cases x) (simp_all add: strs_arg_def unset_or_empty_def)

section \<open>Reviews.get\<close>

lemma reviews_get_run:
  "reviews_get sw after limit fields' authors changes has_reviewers ids keywords
         participants projects states passes_tests not_updated_since has_voted my_comments s =
     (case reviews_get_params sw after limit fields' authors changes has_reviewers ids keywords
         participants projects states passes_tests not_updated_since has_voted my_comments of
        Inl e \<Rightarrow> (Inl e, s)
      | Inr params \<Rightarrow>
          (response (request_fn sw s
             \<lparr>req_method = ''GET'', req_path = ''reviews'', req_params = Some params,
                req_data = None, req_json = None\<rparr>),
           s @ [Request \<lparr>req_method = ''GET'', req_path = ''reviews'',
            req_params = Some params,
                  req_data = None, req_json = None\<rparr>]))"
  by (simp add: reviews_get_def py_raise_def swarm_request_run split: sum.splits)

lemma reviews_get_params_raises:
  "truthy (strs_arg authors) \<and> api_version sw < 2 \<Longrightarrow>
   reviews_get_params sw after limit fields' authors changes has_reviewers ids keywords
         participants projects states passes_tests not_updated_since has_voted my_comments =
     Inl (SwarmCompatibleError ''author field is supported from API version >= 2'')"
  by (simp add: reviews_get_params_def Let_def)

lemma reviews_get_params_builds:
  "\<not> (truthy (strs_arg authors) \<and> api_version sw < 2) \<Longrightarrow>
   \<exists>params. reviews_get_params sw after limit fields' authors changes has_reviewers ids keywords
         participants projects states passes_tests not_updated_since has_voted my_comments = Inr params"
  by (simp add: reviews_get_params_def Let_def)

lemma reviews_get_builds:
  assumes "unset_or_empty authors \<or> 2 \<le> api_version sw"
  shows "\<exists>params. reviews_get_params sw after limit fields' authors changes has_reviewers ids keywords
         participants projects states passes_tests not_updated_since has_voted my_comments = Inr params"
proof -
  from assms have "\<not> (truthy (strs_arg authors) \<and> api_version sw < 2)"
    by (auto simp add: truthy_strs_arg)
  from reviews_get_params_builds [OF this] show ?thesis .
qed




lemma reviews_get_params_wire_keys:
  assumes "reviews_get_params sw after limit fields' authors changes has_reviewers ids keywords
         participants projects states passes_tests not_updated_since has_voted my_comments = Inr params"
  shows "(\<forall>n. limit = Some n \<and> n \<noteq> 0 \<longrightarrow> dict_get params ''max'' = Some (VInt n))
        \<and> (\<forall>xs. fields' = Some xs \<and> xs \<noteq> [] \<longrightarrow>
              dict_get params ''fields'' = Some (VStr (py_join '','' xs)))
        \<and> (\<forall>xs. authors = Some xs \<and> xs \<noteq> [] \<longrightarrow>
              dict_get params ''author'' = Some (VStrList xs))
        \<and> (\<forall>ns. changes = Some ns \<and> ns \<noteq> [] \<longrightarrow>
              dict_get params ''change'' = Some (VIntList ns))
        \<and> (\<forall>xs. projects = Some xs \<and> xs \<noteq> [] \<longrightarrow>
              dict_get params ''project'' = Some (VStrList xs))
        \<and> (\<forall>xs. states = Some xs \<and> xs \<noteq> [] \<longrightarrow>
              dict_get params ''state'' = Some (VStrList xs))
        \<and> (\<forall>v. not_updated_since = Some v \<and> v \<noteq> [] \<longrightarrow>
              dict_get params ''notUpdatedSince'' = Some (VStr v))
        \<and> (\<forall>v. has_voted = Some v \<and> v \<noteq> [] \<longrightarrow>
              dict_get params ''hasVoted'' = Some (VStr v))
        \<and> \<not> has_key params ''limit'' \<and> \<not> has_key params ''authors''
        \<and> \<not> has_key params ''changes'' \<and> \<not> has_key params ''projects''
        \<and> \<not> has_key params ''states'' \<and> \<not> has_key params ''not_updated_since''
        \<and> \<not> has_key params ''has_voted''"
    (is "?P params")
proof -
  have "case reviews_get_params sw after limit fields' authors changes has_reviewers ids keywords
         participants projects states passes_tests not_updated_since has_voted my_comments of Inl e \<Rightarrow> True | Inr p \<Rightarrow> ?P p"
    by (simp add: reviews_get_params_def Let_def arg_defs)
  with assms show ?thesis by simp
qed

lemma reviews_get_sends_wire_keys:
  assumes "unset_or_empty authors \<or> 2 \<le> api_version sw"
  shows "\<exists>params r.
      r = \<lparr>req_method = ''GET'', req_path = ''reviews'', req_params = Some params,
            req_data = None, req_json = None\<rparr>
    \<and> reviews_get sw after limit fields' authors changes has_reviewers ids keywords
         participants projects states passes_tests not_updated_since has_voted my_comments s
      = (response (request_fn sw s r), s @ [Request r])
    \<and> (\<forall>n. limit = Some n \<and> n \<noteq> 0 \<longrightarrow> dict_get params ''max'' = Some (VInt n))
        \<and> (\<forall>xs. fields' = Some xs \<and> xs \<noteq> [] \<longrightarrow>
              dict_get params ''fields'' = Some (VStr (py_join '','' xs)))
        \<and> (\<forall>xs. authors = Some xs \<and> xs \<noteq> [] \<longrightarrow>
              dict_get params ''author'' = Some (VStrList xs))
        \<and> (\<forall>ns. changes = Some ns \<and> ns \<noteq> [] \<longrightarrow>
              dict_get params ''change'' = Some (VIntList ns))
        \<and> (\<forall>xs. projects = Some xs \<and> xs \<noteq> [] \<longrightarrow>
              dict_get params ''project'' = Some (VStrList xs))
        \<and> (\<forall>xs. states = Some xs \<and> xs \<noteq> [] \<longrightarrow>
              dict_get params ''state'' = Some (VStrList xs))
        \<and> (\<forall>v. not_updated_since = Some v \<and> v \<noteq> [] \<longrightarrow>
              dict_get params ''notUpdatedSince'' = Some (VStr v))
        \<and> (\<forall>v. has_voted = Some v \<and> v \<noteq> [] \<longrightarrow>
              dict_get params ''hasVoted'' = Some (VStr v))
        \<and> \<not> has_key params ''limit'' \<and> \<not> has_key params ''authors''
        \<and> \<not> has_key params ''changes'' \<and> \<not> has_key params ''projects''
        \<and> \<not> has_key params ''states'' \<and> \<not> has_key params ''not_updated_since''
        \<and> \<not> has_key params ''has_voted''"
proof -
  from reviews_get_builds [OF assms] obtain params where
    p: "reviews_get_params sw after limit fields' authors changes has_reviewers ids keywords
         participants projects states passes_tests not_updated_since has_voted my_comments = Inr params"
    by blast
  from reviews_get_params_wire_keys [OF p] p show ?thesis
    by (simp add: reviews_get_run)
qed

lemma reviews_get_authors_below_2:
  assumes "authors = Some xs \<and> xs \<noteq> [] \<and> api_version sw < 2"
  shows "reviews_get sw after limit fields' authors changes has_reviewers ids keywords
         participants projects states passes_tests not_updated_since has_voted my_comments s
         = (Inl (SwarmCompatibleError ''author field is supported from API version >= 2''), s)"
proof -
  from assms have "truthy (strs_arg authors) \<and> api_version sw < 2"
    by (simp add: strs_arg_def)
  from reviews_get_params_raises [OF this] show ?thesis
    by (simp add: reviews_get_run)
qed

text \<open>
  Claim C8. Whenever the version guard for \<^verbatim>\<open>authors\<close> does not fire (\<^verbatim>\<open>authors\<close> is unset
  or empty, or the negotiated API version is at least 2), \<^verbatim>\<open>Reviews.get\<close> sends its GET
  request to \<^verbatim>\<open>reviews\<close>, and the query parameters of that request use the renamed
  wire keys: a \<^verbatim>\<open>limit\<close> other than 0 is stored under \<^verbatim>\<open>max\<close>, a non-empty \<^verbatim>\<open>fields\<close>
  list as its comma-join under \<^verbatim>\<open>fields\<close>, non-empty \<^verbatim>\<open>authors\<close> under \<^verbatim>\<open>author\<close>,
  \<^verbatim>\<open>changes\<close> under \<^verbatim>\<open>change\<close>, \<^verbatim>\<open>projects\<close> under \<^verbatim>\<open>project\<close>, \<^verbatim>\<open>states\<close> under
  \<^verbatim>\<open>state\<close>, \<^verbatim>\<open>not_updated_since\<close> under \<^verbatim>\<open>notUpdatedSince\<close> and \<^verbatim>\<open>has_voted\<close> under
  \<^verbatim>\<open>hasVoted\<close>, and none of the renamed arguments appears under its own name. When
  \<^verbatim>\<open>authors\<close> is a non-empty list and the negotiated API version is below 2, the call
  raises the compatibility error and leaves the log as it was: no request is sent.
\<close>

theorem reviews_get_wire_keys:
  "(unset_or_empty authors \<or> 2 \<le> api_version sw \<longrightarrow>
      (\<exists>params r.
        r = \<lparr>req_method = ''GET'', req_path = ''reviews'', req_params = Some params,
            req_data = None, req_json = None\<rparr>
    \<and> reviews_get sw after limit fields' authors changes has_reviewers ids keywords
         participants projects states passes_tests not_updated_since has_voted my_comments s
      = (response (request_fn sw s r), s @ [Request r])
        \<and> (\<forall>n. limit = Some n \<and> n \<noteq> 0 \<longrightarrow> dict_get params ''max'' = Some (VInt n))
        \<and> (\<forall>xs. fields' = Some xs \<and> xs \<noteq> [] \<longrightarrow>
              dict_get params ''fields'' = Some (VStr (py_join '','' xs)))
        \<and> (\<forall>xs. authors = Some xs \<and> xs \<noteq> [] \<longrightarrow>
              dict_get params ''author'' = Some (VStrList xs))
        \<and> (\<forall>ns. changes = Some ns \<and> ns \<noteq> [] \<longrightarrow>
              dict_get params ''change'' = Some (VIntList ns))
        \<and> (\<forall>xs. projects = Some xs \<and> xs \<noteq> [] \<longrightarrow>
              dict_get params ''project'' = Some (VStrList xs))
        \<and> (\<forall>xs. states = Some xs \<and> xs \<noteq> [] \<longrightarrow>
              dict_get params ''state'' = Some (VStrList xs))
        \<and> (\<forall>v. not_updated_since = Some v \<and> v \<noteq> [] \<longrightarrow>
              dict_get params ''notUpdatedSince'' = Some (VStr v))
        \<and> (\<forall>v. has_voted = Some v \<and> v \<noteq> [] \<longrightarrow>
              dict_get params ''hasVoted'' = Some (VStr v))
        \<and> \<not> has_key params ''limit'' \<and> \<not> has_key params ''authors''
        \<and> \<not> has_key params ''changes'' \<and> \<not> has_key params ''projects''
        \<and> \<not> has_key params ''states'' \<and> \<not> has_key params ''not_updated_since''
        \<and> \<not> has_key params ''has_voted''))
   \<and> (\<forall>xs. authors = Some xs \<and> xs \<noteq> [] \<and> api_version sw < 2 \<longrightarrow>
         reviews_get sw after limit fields' authors changes has_reviewers ids keywords
         participants projects states passes_tests not_updated_since has_voted my_comments s
         = (Inl (SwarmCompatibleError ''author field is supported from API version >= 2''), s))"
  by (intro conjI allI impI)
     (erule reviews_get_sends_wire_keys, erule reviews_get_authors_below_2)

theorem reviews_get_wire_keys_witness:
  "(unset_or_empty (Some [''alice'']) \<or> 2 \<le> api_version (swarm_of 2 [2] (0::nat)))
   \<and> reviews_get (swarm_of 2 [2] (0::nat)) None (Some 5) (Some [''id'', ''state''])
        (Some [''alice'']) (Some [7, 8]) None None None None (Some [''p'']) (Some [''open''])
        None (Some ''2017-01-01'') (Some ''up'') None []
     = (Inr 0, [Request \<lparr>req_method = ''GET'', req_path = ''reviews'',
        req_params = Some [(''max'', VInt 5), (''fields'', VStr ''id,state''),
          (''author'', VStrList [''alice'']), (''change'', VIntList [7, 8]),
          (''project'', VStrList [''p'']), (''state'', VStrList [''open'']),
          (''notUpdatedSince'', VStr ''2017-01-01''), (''hasVoted'', VStr ''up'')],
        req_data = None, req_json = None\<rparr>])
   \<and> (\<exists>params r.
        r = \<lparr>req_method = ''GET'', req_path = ''reviews'', req_params = Some params,
              req_data = None, req_json = None\<rparr>
      \<and> reviews_get (swarm_of 2 [2] (0::nat)) None (Some 5) (Some [''id'', ''state''])
        (Some [''alice'']) (Some [7, 8]) None None None None (Some [''p'']) (Some [''open''])
        None (Some ''2017-01-01'') (Some ''up'') None []
        = (response (request_fn (swarm_of 2 [2] (0::nat)) [] r), [Request r])
      \<and> dict_get params ''max'' = Some (VInt 5)
      \<and> dict_get params ''fields'' = Some (VStr (py_join '','' [''id'', ''state'']))
      \<and> dict_get params ''author'' = Some (VStrList [''alice''])
      \<and> dict_get params ''change'' = Some (VIntList [7, 8])
      \<and> dict_get params ''project'' = Some (VStrList [''p''])
      \<and> dict_get params ''state'' = Some (VStrList [''open''])
      \<and> dict_get params ''notUpdatedSince'' = Some (VStr ''2017-01-01'')
      \<and> dict_get params ''hasVoted'' = Some (VStr ''up'')
      \<and> \<not> has_key params ''limit'' \<and> \<not> has_key params ''authors''
      \<and> \<not> has_key params ''changes'' \<and> \<not> has_key params ''projects''
      \<and> \<not> has_key params ''states'' \<and> \<not> has_key params ''not_updated_since''
      \<and> \<not> has_key params ''has_voted'')
   \<and> reviews_get (swarm_of 1 [1] (0::nat)) None (Some 5) (Some [''id'', ''state''])
        (Some [''alice'']) (Some [7, 8]) None None None None (Some [''p'']) (Some [''open''])
        None (Some ''2017-01-01'') (Some ''up'') None []
     = (Inl (SwarmCompatibleError ''author field is supported from API version >= 2''), [])"
proof -
  have ok: "unset_or_empty (Some [''alice'']) \<or> 2 \<le> api_version (swarm_of 2 [2] (0::nat))"
    by (simp add: swarm_of_def)
  have run: "reviews_get (swarm_of 2 [2] (0::nat)) None (Some 5) (Some [''id'', ''state''])
        (Some [''alice'']) (Some [7, 8]) None None None None (Some [''p'']) (Some [''open''])
        None (Some ''2017-01-01'') (Some ''up'') None []
     = (Inr 0, [Request \<lparr>req_method = ''GET'', req_path = ''reviews'',
        req_params = Some [(''max'', VInt 5), (''fields'', VStr ''id,state''),
          (''author'', VStrList [''alice'']), (''change'', VIntList [7, 8]),
          (''project'', VStrList [''p'']), (''state'', VStrList [''open'']),
          (''notUpdatedSince'', VStr ''2017-01-01''), (''hasVoted'', VStr ''up'')],
        req_data = None, req_json = None\<rparr>])"
    by (simp add: reviews_get_run reviews_get_params_def Let_def run_defs)
  from reviews_get_wire_keys [THEN conjunct1, rule_format, OF ok, where s = "[]"
      and limit = "Some 5" and fields' = "Some [''id'', ''state'']" and changes = "Some [7, 8]"
      and projects = "Some [''p'']" and states = "Some [''open'']"
      and not_updated_since = "Some ''2017-01-01''" and has_voted = "Some ''up''"
      and after = None and has_reviewers = None and ids = None and participants = None
      and passes_tests = None and my_comments = None]
  have keys: "(\<exists>params r.
        r = \<lparr>req_method = ''GET'', req_path = ''reviews'', req_params = Some params,
              req_data = None, req_json = None\<rparr>
      \<and> reviews_get (swarm_of 2 [2] (0::nat)) None (Some 5) (Some [''id'', ''state''])
        (Some [''alice'']) (Some [7, 8]) None None None None (Some [''p'']) (Some [''open''])
        None (Some ''2017-01-01'') (Some ''up'') None []
        = (response (request_fn (swarm_of 2 [2] (0::nat)) [] r), [Request r])
      \<and> dict_get params ''max'' = Some (VInt 5)
      \<and> dict_get params ''fields'' = Some (VStr (py_join '','' [''id'', ''state'']))
      \<and> dict_get params ''author'' = Some (VStrList [''alice''])
      \<and> dict_get params ''change'' = Some (VIntList [7, 8])
      \<and> dict_get params ''project'' = Some (VStrList [''p''])
      \<and> dict_get params ''state'' = Some (VStrList [''open''])
      \<and> dict_get params ''notUpdatedSince'' = Some (VStr ''2017-01-01'')
      \<and> dict_get params ''hasVoted'' = Some (VStr ''up'')
      \<and> \<not> has_key params ''limit'' \<and> \<not> has_key params ''authors''
      \<and> \<not> has_key params ''changes'' \<and> \<not> has_key params ''projects''
      \<and> \<not> has_key params ''states'' \<and> \<not> has_key params ''not_updated_since''
      \<and> \<not> has_key params ''has_voted'')"
    by simp
  have low: "Some [''alice''] = Some [''alice''] \<and> [''alice''] \<noteq> []
      \<and> api_version (swarm_of 1 [1] (0::nat)) < 2"
    by (simp add: swarm_of_def)
  have raised: "reviews_get (swarm_of 1 [1] (0::nat)) None (Some 5) (Some [''id'', ''state''])
        (Some [''alice'']) (Some [7, 8]) None None None None (Some [''p'']) (Some [''open''])
        None (Some ''2017-01-01'') (Some ''up'') None []
     = (Inl (SwarmCompatibleError ''author field is supported from API version >= 2''), [])"
    using reviews_get_wire_keys [THEN conjunct2, rule_format, OF low] .
  from ok run keys raised show ?thesis
    by (intro conjI)
qed

lemma reviews_get_params_keys:
  assumes "reviews_get_params sw after limit fields' authors changes has_reviewers ids keywords
         participants projects states passes_tests not_updated_since has_voted my_comments = Inr params"
  shows "keys_iff params
     [(''after'', truthy (int_arg after)), (''max'', truthy (int_arg limit)),
      (''fields'', truthy (strs_arg fields')), (''author'', truthy (strs_arg authors)),
      (''change'', truthy (ints_arg changes)), (''hasReviewers'', has_reviewers \<noteq> None),
      (''ids'', truthy (ints_arg ids)), (''keywords'', truthy (str_arg keywords)),
      (''participants'', truthy (strs_arg participants)),
      (''project'', truthy (strs_arg projects)), (''state'', truthy (strs_arg states)),
      (''passesTests'', passes_tests \<noteq> None),
      (''notUpdatedSince'', truthy (str_arg not_updated_since)),
      (''hasVoted'', truthy (str_arg has_voted)), (''myComments'', my_comments \<noteq> None)]"
    (is "?P params")
proof -
  have "case reviews_get_params sw after limit fields' authors changes has_reviewers ids keywords
         participants projects states passes_tests not_updated_since has_voted my_comments of Inl e \<Rightarrow> True | Inr p \<Rightarrow> ?P p"
    by (simp add: reviews_get_params_def Let_def keys_iff_def)
  with assms show ?thesis by simp
qed

text \<open>
  Claim C10. When \<^verbatim>\<open>authors\<close> is the empty list, \<^verbatim>\<open>Reviews.get\<close> raises nothing,
  whatever the negotiated API version is: the call sends its one GET request to
  \<^verbatim>\<open>reviews\<close>, returns what the request method answered, and the query parameters
  have no key \<^verbatim>\<open>author\<close>.
\<close>

theorem reviews_get_empty_authors:
  "\<exists>params r.
      r = \<lparr>req_method = ''GET'', req_path = ''reviews'', req_params = Some params,
            req_data = None, req_json = None\<rparr>
    \<and> reviews_get sw after limit fields' (Some []) changes has_reviewers ids keywords
        participants projects states passes_tests not_updated_since has_voted my_comments s
      = (response (request_fn sw s r), s @ [Request r])
    \<and> \<not> has_key params ''author''"
proof -
  have "\<not> (truthy (strs_arg (Some [])) \<and> api_version sw < 2)"
    by (simp add: strs_arg_def)
  from reviews_get_params_builds [OF this] obtain params where
    p: "reviews_get_params sw after limit fields' (Some []) changes has_reviewers ids
      keywords participants projects states passes_tests not_updated_since has_voted my_comments
      = Inr params"
    by blast
  from reviews_get_params_keys [OF p] have "\<not> has_key params ''author''"
    by (simp add: keys_iff_def strs_arg_def)
  with p show ?thesis
    by (simp add: reviews_get_run)
qed

section \<open>Reviews.get_transitions\<close>

text \<open>
  Claim C5. While the negotiated API version is below 9, every call of
  \<^verbatim>\<open>Reviews.get_transitions\<close> raises the compatibility error and leaves the log as it
  was: no request is sent. From version 9 on, every call sends one GET request to
  \<^verbatim>\<open>reviews/{review_id}/transitions\<close>; its query parameters hold \<^verbatim>\<open>upVoters\<close> with the
  supplied value exactly when \<^verbatim>\<open>up_voters\<close> was given and is not the empty string; and
  the call returns what the request method answered.
\<close>

theorem reviews_get_transitions_guard:
  "(api_version sw < 9 \<longrightarrow>
      reviews_get_transitions sw review_id up_voters s =
        (Inl (SwarmCompatibleError ''get_transitions is supported with API v9+''), s))
   \<and> (9 \<le> api_version sw \<longrightarrow>
        (\<exists>params r.
           r = \<lparr>req_method = ''GET'',
                 req_path = ''reviews/'' @ py_str_int review_id @ ''/transitions'',
                 req_params = Some params, req_data = None, req_json = None\<rparr>
           \<and> reviews_get_transitions sw review_id up_voters s =
               (response (request_fn sw s r), s @ [Request r])
           \<and> dict_get params ''upVoters'' =
               (case up_voters of
                  None \<Rightarrow> None
                | Some v \<Rightarrow> if v = [] then None else Some (VStr v))))"
  by (cases up_voters)
     (simp_all add: reviews_get_transitions_def py_raise_def swarm_request_run
        reviews_get_transitions_params_def str_arg_def)

theorem reviews_get_transitions_guard_witness:
  "reviews_get_transitions (swarm_of 8 [8] (0::nat)) 12 (Some ''bob'') [] =
     (Inl (SwarmCompatibleError ''get_transitions is supported with API v9+''), [])
   \<and> reviews_get_transitions (swarm_of 9 [9] (0::nat)) 12 (Some ''bob'') [] =
       (Inr 0, [Request \<lparr>req_method = ''GET'', req_path = ''reviews/12/transitions'',
                 req_params = Some [(''upVoters'', VStr ''bob'')],
                 req_data = None, req_json = None\<rparr>])"
proof -
  have lo: "api_version (swarm_of 8 [8] (0::nat)) < 9"
    by (simp add: swarm_of_def)
  have hi: "9 \<le> api_version (swarm_of 9 [9] (0::nat))"
    by (simp add: swarm_of_def)
  from reviews_get_transitions_guard [THEN conjunct1, rule_format, OF lo]
    reviews_get_transitions_guard [THEN conjunct2, rule_format, OF hi,
      of 12 "Some ''bob''" "[]"]
  show ?thesis
    by (simp add: reviews_get_transitions_def swarm_request_run
          reviews_get_transitions_params_def run_defs)
qed

section \<open>Reviews.create\<close>

lemma reviews_create_run:
  "reviews_create sw change description reviewers required_reviewers reviewer_groups s =
     (case reviews_create_data sw change description reviewers required_reviewers
             reviewer_groups of
        Inl e \<Rightarrow> (Inl e, s)
      | Inr data \<Rightarrow>
          (response (request_fn sw s
             \<lparr>req_method = ''POST'', req_path = ''reviews'', req_params = None,
                req_data = Some data, req_json = None\<rparr>),
           s @ [Request \<lparr>req_method = ''POST'', req_path = ''reviews'',
            req_params = None,
                  req_data = Some data, req_json = None\<rparr>]))"
  by (simp add: reviews_create_def py_raise_def swarm_request_run split: sum.splits)

lemma reviews_create_data_required_v1:
  "\<not> unset_or_empty required_reviewers \<and> api_version sw = 1 \<Longrightarrow>
   reviews_create_data sw change description reviewers required_reviewers reviewer_groups =
     Inl (SwarmCompatibleError ''required_reviewers field is supported from API version > 1'')"
  by (simp add: reviews_create_data_def Let_def truthy_strs_arg)

lemma reviews_create_data_groups_below_7:
  "\<not> (\<not> unset_or_empty required_reviewers \<and> api_version sw = 1) \<Longrightarrow>
   \<not> unset_or_empty reviewer_groups \<and> api_version sw < 7 \<Longrightarrow>
   reviews_create_data sw change description reviewers required_reviewers reviewer_groups =
     Inl (SwarmCompatibleError ''reviewer_groups field is supported from API version > 6'')"
  by (simp add: reviews_create_data_def Let_def truthy_strs_arg)

lemma reviews_create_data_builds:
  assumes "\<not> (\<not> unset_or_empty required_reviewers \<and> api_version sw = 1)"
    and "\<not> (\<not> unset_or_empty reviewer_groups \<and> api_version sw < 7)"
  shows "\<exists>data. reviews_create_data sw change description reviewers required_reviewers reviewer_groups = Inr data
      \<and> dict_get data ''change'' = Some (VInt change)
      \<and> dict_get data ''reviewerGroups'' =
          (if unset_or_empty reviewer_groups then None else Some (strs_arg reviewer_groups))"
  using assms by (auto simp add: reviews_create_data_def Let_def truthy_strs_arg)

lemma reviews_create_sends_change:
  assumes "(unset_or_empty required_reviewers \<or> api_version sw \<noteq> 1)
      \<and> (unset_or_empty reviewer_groups \<or> 7 \<le> api_version sw)"
  shows "\<exists>data r.
      r = \<lparr>req_method = ''POST'', req_path = ''reviews'', req_params = None,
            req_data = Some data, req_json = None\<rparr>
    \<and> reviews_create sw change description reviewers required_reviewers reviewer_groups s
      = (response (request_fn sw s r), s @ [Request r])
    \<and> dict_get data ''change'' = Some (VInt change)"
proof -
  from assms have a: "\<not> (\<not> unset_or_empty required_reviewers \<and> api_version sw = 1)"
    and b: "\<not> (\<not> unset_or_empty reviewer_groups \<and> api_version sw < 7)"
    by auto
  from reviews_create_data_builds [OF a b] obtain data where
    d: "reviews_create_data sw change description reviewers required_reviewers reviewer_groups = Inr data"
    and c: "dict_get data ''change'' = Some (VInt change)"
    by blast
  from d c show ?thesis
    by (simp add: reviews_create_run)
qed

lemma reviews_create_required_v1:
  assumes "required_reviewers = Some xs \<and> xs \<noteq> [] \<and> api_version sw = 1"
  shows "reviews_create sw change description reviewers required_reviewers reviewer_groups s =
     (Inl (SwarmCompatibleError
        ''required_reviewers field is supported from API version > 1''), s)"
proof -
  from assms have "\<not> unset_or_empty required_reviewers \<and> api_version sw = 1"
    by (simp add: unset_or_empty_def)
  from reviews_create_data_required_v1 [OF this] show ?thesis
    by (simp add: reviews_create_run)
qed

lemma reviews_create_groups_below_7:
  assumes "reviewer_groups = Some xs \<and> xs \<noteq> [] \<and> api_version sw < 7"
  shows "reviews_create sw change description reviewers required_reviewers reviewer_groups s =
     (Inl (SwarmCompatibleError
        (if \<not> unset_or_empty required_reviewers \<and> api_version sw = 1
         then ''required_reviewers field is supported from API version > 1''
         else ''reviewer_groups field is supported from API version > 6'')), s)"
proof (cases "\<not> unset_or_empty required_reviewers \<and> api_version sw = 1")
  case True
  from reviews_create_data_required_v1 [OF True] True show ?thesis
    by (simp add: reviews_create_run)
next
  case False
  from assms have "\<not> unset_or_empty reviewer_groups \<and> api_version sw < 7"
    by (simp add: unset_or_empty_def)
  from reviews_create_data_groups_below_7 [OF False this] False show ?thesis
    by (simp add: reviews_create_run)
qed

lemma reviews_create_groups_from_7:
  assumes "reviewer_groups = Some xs \<and> xs \<noteq> [] \<and> 7 \<le> api_version sw"
  shows "\<exists>data r.
      r = \<lparr>req_method = ''POST'', req_path = ''reviews'', req_params = None,
            req_data = Some data, req_json = None\<rparr>
    \<and> reviews_create sw change description reviewers required_reviewers reviewer_groups s
      = (response (request_fn sw s r), s @ [Request r])
    \<and> dict_get data ''change'' = Some (VInt change)
    \<and> dict_get data ''reviewerGroups'' = Some (VStrList xs)"
proof -
  from assms have a: "\<not> (\<not> unset_or_empty required_reviewers \<and> api_version sw = 1)"
    and b: "\<not> (\<not> unset_or_empty reviewer_groups \<and> api_version sw < 7)"
    by auto
  from reviews_create_data_builds [OF a b] obtain data where
    d: "reviews_create_data sw change description reviewers required_reviewers reviewer_groups = Inr data"
    and c: "dict_get data ''change'' = Some (VInt change)"
    and g: "dict_get data ''reviewerGroups'' =
          (if unset_or_empty reviewer_groups then None else Some (strs_arg reviewer_groups))"
    by blast
  from assms g have "dict_get data ''reviewerGroups'' = Some (VStrList xs)"
    by (simp add: unset_or_empty_def strs_arg_def)
  with d c show ?thesis
    by (simp add: reviews_create_run)
qed

text \<open>
  Claim C6. Whenever neither guard of \<^verbatim>\<open>Reviews.create\<close> fires (\<^verbatim>\<open>required_reviewers\<close>
  is unset or empty or the negotiated API version is not 1, and \<^verbatim>\<open>reviewer_groups\<close> is
  unset or empty or the version is at least 7), the call sends its POST request to
  \<^verbatim>\<open>reviews\<close> and the payload holds the key \<^verbatim>\<open>change\<close> with the supplied change: every
  payload that is sent contains it. When \<^verbatim>\<open>required_reviewers\<close> is a non-empty list and
  the version is 1, the call raises the compatibility error of that field and sends
  nothing. When \<^verbatim>\<open>reviewer_groups\<close> is a non-empty list and the version is below 7, the
  call raises a compatibility error and sends nothing (the error of
  \<^verbatim>\<open>required_reviewers\<close> when that guard fires first, the error of \<^verbatim>\<open>reviewer_groups\<close>
  otherwise). When \<^verbatim>\<open>reviewer_groups\<close> is a non-empty list and the version is at least
  7, the request is sent and its payload holds \<^verbatim>\<open>change\<close> and \<^verbatim>\<open>reviewerGroups\<close> with
  that list.
\<close>

theorem reviews_create_guards:
  "((unset_or_empty required_reviewers \<or> api_version sw \<noteq> 1)
      \<and> (unset_or_empty reviewer_groups \<or> 7 \<le> api_version sw) \<longrightarrow>
      (\<exists>data r.
          r = \<lparr>req_method = ''POST'', req_path = ''reviews'', req_params = None,
            req_data = Some data, req_json = None\<rparr>
        \<and> reviews_create sw change description reviewers required_reviewers reviewer_groups s
          = (response (request_fn sw s r), s @ [Request r])
        \<and> dict_get data ''change'' = Some (VInt change)))
   \<and> (\<forall>xs. required_reviewers = Some xs \<and> xs \<noteq> [] \<and> api_version sw = 1 \<longrightarrow>
        reviews_create sw change description reviewers required_reviewers reviewer_groups s =
          (Inl (SwarmCompatibleError
             ''required_reviewers field is supported from API version > 1''), s))
   \<and> (\<forall>xs. reviewer_groups = Some xs \<and> xs \<noteq> [] \<and> api_version sw < 7 \<longrightarrow>
        reviews_create sw change description reviewers required_reviewers reviewer_groups s =
          (Inl (SwarmCompatibleError
             (if \<not> unset_or_empty required_reviewers \<and> api_version sw = 1
              then ''required_reviewers field is supported from API version > 1''
              else ''reviewer_groups field is supported from API version > 6'')), s))
   \<and> (\<forall>xs. reviewer_groups = Some xs \<and> xs \<noteq> [] \<and> 7 \<le> api_version sw \<longrightarrow>
        (\<exists>data r.
            r = \<lparr>req_method = ''POST'', req_path = ''reviews'', req_params = None,
            req_data = Some data, req_json = None\<rparr>
          \<and> reviews_create sw change description reviewers required_reviewers reviewer_groups s
            = (response (request_fn sw s r), s @ [Request r])
          \<and> dict_get data ''change'' = Some (VInt change)
          \<and> dict_get data ''reviewerGroups'' = Some (VStrList xs)))"
  by (intro conjI allI impI)
     (erule reviews_create_sends_change, erule reviews_create_required_v1,
      erule reviews_create_groups_below_7, erule reviews_create_groups_from_7)

theorem reviews_create_guards_witness:
  "(\<exists>data r.
        r = \<lparr>req_method = ''POST'', req_path = ''reviews'', req_params = None,
              req_data = Some data, req_json = None\<rparr>
      \<and> reviews_create (swarm_of 9 [9] (0::nat)) 42 (Some ''d'') None None None []
        = (response (request_fn (swarm_of 9 [9] (0::nat)) [] r), [Request r])
      \<and> dict_get data ''change'' = Some (VInt 42))
   \<and> reviews_create (swarm_of 6 [6] (0::nat)) 42 None None None (Some [''qa'']) [] =
     (Inl (SwarmCompatibleError ''reviewer_groups field is supported from API version > 6''),
      [])
   \<and> reviews_create (swarm_of 1 [1] (0::nat)) 42 None None (Some [''carol'']) None [] =
     (Inl (SwarmCompatibleError ''required_reviewers field is supported from API version > 1''),
      [])
   \<and> (\<exists>data r.
        r = \<lparr>req_method = ''POST'', req_path = ''reviews'', req_params = None,
              req_data = Some data, req_json = None\<rparr>
      \<and> reviews_create (swarm_of 7 [7] (0::nat)) 42 None None None (Some [''qa'']) []
        = (response (request_fn (swarm_of 7 [7] (0::nat)) [] r), [Request r])
      \<and> dict_get data ''change'' = Some (VInt 42)
      \<and> dict_get data ''reviewerGroups'' = Some (VStrList [''qa'']))"
proof -
  have free: "(unset_or_empty (None :: string list option)
        \<or> api_version (swarm_of 9 [9] (0::nat)) \<noteq> 1)
      \<and> (unset_or_empty (None :: string list option)
        \<or> 7 \<le> api_version (swarm_of 9 [9] (0::nat)))"
    by (simp add: unset_or_empty_def)
  have v6: "Some [''qa''] = Some [''qa''] \<and> [''qa''] \<noteq> []
      \<and> api_version (swarm_of 6 [6] (0::nat)) < 7"
    by (simp add: swarm_of_def)
  have v1: "Some [''carol''] = Some [''carol''] \<and> [''carol''] \<noteq> []
      \<and> api_version (swarm_of 1 [1] (0::nat)) = 1"
    by (simp add: swarm_of_def)
  have v7: "Some [''qa''] = Some [''qa''] \<and> [''qa''] \<noteq> []
      \<and> 7 \<le> api_version (swarm_of 7 [7] (0::nat))"
    by (simp add: swarm_of_def)
  note g = reviews_create_guards
  from g [THEN conjunct1, rule_format, OF free, where change = 42
      and description = "Some ''d''" and reviewers = None and s = "[]"]
  have plain: "(\<exists>data r.
        r = \<lparr>req_method = ''POST'', req_path = ''reviews'', req_params = None,
              req_data = Some data, req_json = None\<rparr>
      \<and> reviews_create (swarm_of 9 [9] (0::nat)) 42 (Some ''d'') None None None []
        = (response (request_fn (swarm_of 9 [9] (0::nat)) [] r), [Request r])
      \<and> dict_get data ''change'' = Some (VInt 42))"
    by simp
  from g [THEN conjunct2, THEN conjunct2, THEN conjunct1, rule_format, OF v6,
      where change = 42 and description = None and reviewers = None
      and required_reviewers = None and s = "[]"]
  have low: "reviews_create (swarm_of 6 [6] (0::nat)) 42 None None None (Some [''qa'']) [] =
     (Inl (SwarmCompatibleError ''reviewer_groups field is supported from API version > 6''),
      [])"
    by (simp add: unset_or_empty_def)
  from g [THEN conjunct2, THEN conjunct1, rule_format, OF v1]
  have one: "reviews_create (swarm_of 1 [1] (0::nat)) 42 None None (Some [''carol'']) None [] =
     (Inl (SwarmCompatibleError ''required_reviewers field is supported from API version > 1''),
      [])" .
  from g [THEN conjunct2, THEN conjunct2, THEN conjunct2, rule_format, OF v7,
      where change = 42 and description = None and reviewers = None
      and required_reviewers = None and s = "[]"]
  have high: "(\<exists>data r.
        r = \<lparr>req_method = ''POST'', req_path = ''reviews'', req_params = None,
              req_data = Some data, req_json = None\<rparr>
      \<and> reviews_create (swarm_of 7 [7] (0::nat)) 42 None None None (Some [''qa'']) []
        = (response (request_fn (swarm_of 7 [7] (0::nat)) [] r), [Request r])
      \<and> dict_get data ''change'' = Some (VInt 42)
      \<and> dict_get data ''reviewerGroups'' = Some (VStrList [''qa'']))"
    by simp
  from plain low one high show ?thesis
    by (intro conjI)
qed

section \<open>Groups.create\<close>

lemma error_kind_simps [simp]:
  "is_validation_error (Inl (SwarmError m))"
  "\<not> is_validation_error (Inl (SwarmCompatibleError m))"
  "\<not> is_validation_error (Inl (TransportError e))"
  "\<not> is_validation_error (Inr j)"
  "is_compatibility_error (Inl (SwarmCompatibleError m))"
  "\<not> is_compatibility_error (Inl (SwarmError m))"
  "\<not> is_compatibility_error (Inl (TransportError e))"
  "\<not> is_compatibility_error (Inr j)"
  by (simp_all add: is_validation_error_def is_compatibility_error_def)

lemma is_validation_error_response [simp]: "\<not> is_validation_error (response x)"
  by (cases x) (simp_all add: response_def)

lemma groups_create_run:
  "groups_create sw identifier users owners subgroups name description email_address
        notify_reviews notify_commits use_mailing_list max_results max_scan_rows
        max_lock_time max_open_files max_memory timeout password_timeout s =
     (if api_version sw < 2 then (Inl (SwarmCompatibleError ''create''), s)
      else
       (case groups_create_data identifier users owners subgroups name description email_address
        notify_reviews notify_commits use_mailing_list max_results max_scan_rows
        max_lock_time max_open_files max_memory timeout password_timeout of
          Inl e \<Rightarrow> (Inl e, s)
        | Inr data \<Rightarrow>
            (response (request_fn sw (s @ [GetVersion])
               \<lparr>req_method = ''POST'', req_path = ''groups'', req_params = None,
                  req_data = (if 11 \<in> set (apiVersions (version_fn sw s))
                              then None else Some data),
                  req_json = (if 11 \<in> set (apiVersions (version_fn sw s))
                              then Some data else None)\<rparr>),
             s @ [GetVersion,
                  Request \<lparr>req_method = ''POST'', req_path = ''groups'',
            req_params = None,
                    req_data = (if 11 \<in> set (apiVersions (version_fn sw s))
                                then None else Some data),
                    req_json = (if 11 \<in> set (apiVersions (version_fn sw s))
                                then Some data else None)\<rparr>])))"
  by (simp add: groups_create_def minimal_version_run py_raise_def get_version_def
        swarm_request_run split: sum.splits)

lemma groups_create_data_raises:
  "unset_or_empty users \<and> unset_or_empty owners \<and> unset_or_empty subgroups \<Longrightarrow>
   groups_create_data identifier users owners subgroups name description email_address
        notify_reviews notify_commits use_mailing_list max_results max_scan_rows
        max_lock_time max_open_files max_memory timeout password_timeout =
     Inl (SwarmError ''At least one of users, owners, or subgroups is required'')"
  by (simp add: groups_create_data_def Let_def truthy_strs_arg)

lemma groups_create_data_builds:
  "\<not> (unset_or_empty users \<and> unset_or_empty owners \<and> unset_or_empty subgroups) \<Longrightarrow>
   \<exists>data. groups_create_data identifier users owners subgroups name description email_address
        notify_reviews notify_commits use_mailing_list max_results max_scan_rows
        max_lock_time max_open_files max_memory timeout password_timeout = Inr data
      \<and> dict_get data ''Group'' = Some (VStr identifier)"
  by (auto simp add: groups_create_data_def Let_def truthy_strs_arg)

text \<open>
  Claim C2, as stated, fails: it promises the POST for every call that passes the
  required-field precondition, but \<^verbatim>\<open>Groups.create\<close> stands under
  \<^verbatim>\<open>@minimal_version(2)\<close>. With negotiated version 1, a non-empty \<^verbatim>\<open>users\<close> list and
  11 among the supported versions, the call raises the compatibility error and
  nothing is recorded in the log.
\<close>

theorem groups_create_encoding_counterexample:
  "\<not> (unset_or_empty (Some [''alice'']) \<and> unset_or_empty (None :: string list option)
        \<and> unset_or_empty (None :: string list option))
   \<and> 11 \<in> set (apiVersions (version_fn (swarm_of 1 [1, 11] (0::nat)) []))
   \<and> is_compatibility_error
        (fst (groups_create (swarm_of 1 [1, 11] (0::nat)) ''dev'' (Some [''alice'']) None None
           None None None None None None None None None None None None None []))
   \<and> snd (groups_create (swarm_of 1 [1, 11] (0::nat)) ''dev'' (Some [''alice'']) None None
           None None None None None None None None None None None None None []) = []"
  by (simp add: groups_create_run unset_or_empty_def swarm_of_def)

text \<open>
  Claim C2, amended. For every call of \<^verbatim>\<open>Groups.create\<close> with a negotiated API
  version of at least 2 that passes the required-field precondition, there is one
  payload, built from the arguments alone, with \<^verbatim>\<open>Group\<close> set to the identifier; the
  call asks the client for its version metadata and then sends that payload in one
  POST request to \<^verbatim>\<open>groups\<close>: as the JSON body when 11 is among \<^verbatim>\<open>apiVersions\<close>, as
  the form-encoded body otherwise. The call returns what the request method answered.
\<close>

theorem groups_create_encoding:
  assumes "2 \<le> api_version sw"
    and "\<not> (unset_or_empty users \<and> unset_or_empty owners \<and> unset_or_empty subgroups)"
  shows "\<exists>data r.
      groups_create_data identifier users owners subgroups name description email_address
        notify_reviews notify_commits use_mailing_list max_results max_scan_rows
        max_lock_time max_open_files max_memory timeout password_timeout = (Inr data :: 'e error + dict)
    \<and> dict_get data ''Group'' = Some (VStr identifier)
    \<and> r = \<lparr>req_method = ''POST'', req_path = ''groups'', req_params = None,
            req_data = (if 11 \<in> set (apiVersions (version_fn sw s)) then None else Some data),
            req_json = (if 11 \<in> set (apiVersions (version_fn sw s)) then Some data else None)\<rparr>
    \<and> groups_create (sw :: ('e, 'j) swarm) identifier users owners subgroups name description email_address
        notify_reviews notify_commits use_mailing_list max_results max_scan_rows
        max_lock_time max_open_files max_memory timeout password_timeout s
      = (response (request_fn sw (s @ [GetVersion]) r), s @ [GetVersion, Request r])"
proof -
  from groups_create_data_builds [OF assms(2)] obtain data where
    d: "groups_create_data identifier users owners subgroups name description email_address
        notify_reviews notify_commits use_mailing_list max_results max_scan_rows
        max_lock_time max_open_files max_memory timeout password_timeout = (Inr data :: 'e error + dict)"
    and g: "dict_get data ''Group'' = Some (VStr identifier)"
    by blast
  from assms(1) d g show ?thesis
    by (simp add: groups_create_run)
qed

theorem groups_create_encoding_witness:
  "groups_create (swarm_of 11 [9, 10, 11] (0::nat)) ''dev'' (Some [''alice'']) None None
     None None None None None None None None None None None None None []
   = (Inr 0, [GetVersion,
        Request \<lparr>req_method = ''POST'', req_path = ''groups'', req_params = None,
          req_data = None,
          req_json = Some [(''Group'', VStr ''dev''), (''Users'', VStrList [''alice''])]\<rparr>])
   \<and> groups_create (swarm_of 9 [8, 9] (0::nat)) ''dev'' (Some [''alice'']) None None
     None None None None None None None None None None None None None []
   = (Inr 0, [GetVersion,
        Request \<lparr>req_method = ''POST'', req_path = ''groups'', req_params = None,
          req_data = Some [(''Group'', VStr ''dev''), (''Users'', VStrList [''alice''])],
          req_json = None\<rparr>])"
proof -
  have v: "2 \<le> api_version (swarm_of 11 [9, 10, 11] (0::nat))"
    by (simp add: swarm_of_def)
  have u: "\<not> (unset_or_empty (Some [''alice'']) \<and> unset_or_empty (None :: string list option)
        \<and> unset_or_empty (None :: string list option))"
    by (simp add: unset_or_empty_def)
  from groups_create_encoding [OF v u, of "''dev''" None None None None None None None None None None None None None "[]"]
  show ?thesis
    by (simp add: groups_create_run groups_create_data_def Let_def run_defs)
qed

text \<open>
  Claim C3, as stated, fails in its first half: with \<^verbatim>\<open>users\<close>, \<^verbatim>\<open>owners\<close> and
  \<^verbatim>\<open>subgroups\<close> all unset or empty and negotiated version 1, the exception is the
  compatibility error of the version guard, not the validation error.
\<close>

theorem groups_create_required_counterexample:
  "unset_or_empty (None :: string list option) \<and> unset_or_empty (Some ([] :: string list))
   \<and> \<not> is_validation_error
        (fst (groups_create (swarm_of 1 [1] (0::nat)) ''dev'' None (Some []) None
           None None None None None None None None None None None None None []))
   \<and> is_compatibility_error
        (fst (groups_create (swarm_of 1 [1] (0::nat)) ''dev'' None (Some []) None
           None None None None None None None None None None None None None []))"
  by (simp add: groups_create_run unset_or_empty_def swarm_of_def)

text \<open>
  Claim C3, amended. For every call of \<^verbatim>\<open>Groups.create\<close> in which \<^verbatim>\<open>users\<close>,
  \<^verbatim>\<open>owners\<close> and \<^verbatim>\<open>subgroups\<close> are all unset or empty lists, the log stays as it was
  (no request is sent) and an exception is raised: the validation error when the
  negotiated API version is at least 2, the compatibility error of the version guard
  when it is below 2. For every call in which at least one of the three is a
  non-empty list, no validation error is raised.
\<close>

theorem groups_create_required:
  "(unset_or_empty users \<and> unset_or_empty owners \<and> unset_or_empty subgroups \<longrightarrow>
      snd (groups_create sw identifier users owners subgroups name description email_address
        notify_reviews notify_commits use_mailing_list max_results max_scan_rows
        max_lock_time max_open_files max_memory timeout password_timeout s) = s
    \<and> (2 \<le> api_version sw \<longrightarrow>
         fst (groups_create sw identifier users owners subgroups name description email_address
        notify_reviews notify_commits use_mailing_list max_results max_scan_rows
        max_lock_time max_open_files max_memory timeout password_timeout s) =
           Inl (SwarmError ''At least one of users, owners, or subgroups is required''))
    \<and> (api_version sw < 2 \<longrightarrow>
         is_compatibility_error (fst (groups_create sw identifier users owners subgroups name description email_address
        notify_reviews notify_commits use_mailing_list max_results max_scan_rows
        max_lock_time max_open_files max_memory timeout password_timeout s))))
   \<and> (\<not> (unset_or_empty users \<and> unset_or_empty owners \<and> unset_or_empty subgroups) \<longrightarrow>
        \<not> is_validation_error (fst (groups_create sw identifier users owners subgroups name description email_address
        notify_reviews notify_commits use_mailing_list max_results max_scan_rows
        max_lock_time max_open_files max_memory timeout password_timeout s)))"
proof (intro conjI impI)
  assume u: "unset_or_empty users \<and> unset_or_empty owners \<and> unset_or_empty subgroups"
  show "snd (groups_create sw identifier users owners subgroups name description email_address
        notify_reviews notify_commits use_mailing_list max_results max_scan_rows
        max_lock_time max_open_files max_memory timeout password_timeout s) = s"
    using u by (simp add: groups_create_run groups_create_data_raises)
  show "fst (groups_create sw identifier users owners subgroups name description email_address
        notify_reviews notify_commits use_mailing_list max_results max_scan_rows
        max_lock_time max_open_files max_memory timeout password_timeout s) =
      Inl (SwarmError ''At least one of users, owners, or subgroups is required'')"
    if "2 \<le> api_version sw"
    using u that by (simp add: groups_create_run groups_create_data_raises)
  show "is_compatibility_error (fst (groups_create sw identifier users owners subgroups name description email_address
        notify_reviews notify_commits use_mailing_list max_results max_scan_rows
        max_lock_time max_open_files max_memory timeout password_timeout s))"
    if "api_version sw < 2"
    using that by (simp add: groups_create_run)
next
  assume "\<not> (unset_or_empty users \<and> unset_or_empty owners \<and> unset_or_empty subgroups)"
  from groups_create_data_builds [OF this] obtain data where
    "groups_create_data identifier users owners subgroups name description email_address
        notify_reviews notify_commits use_mailing_list max_results max_scan_rows
        max_lock_time max_open_files max_memory timeout password_timeout = (Inr data :: 'a error + dict)"
    by blast
  then show "\<not> is_validation_error (fst (groups_create sw identifier users owners subgroups name description email_address
        notify_reviews notify_commits use_mailing_list max_results max_scan_rows
        max_lock_time max_open_files max_memory timeout password_timeout s))"
    by (simp add: groups_create_run)
qed

theorem groups_create_required_witness:
  "groups_create (swarm_of 2 [2] (0::nat)) ''dev'' None (Some []) None None None None None None None None None None None None None None []
   = (Inl (SwarmError ''At least one of users, owners, or subgroups is required''), [])
   \<and> groups_create (swarm_of 2 [2] (0::nat)) ''dev'' None (Some [''olga'']) None None None None None None None None None None None None None None []
   = (Inr 0, [GetVersion,
        Request \<lparr>req_method = ''POST'', req_path = ''groups'', req_params = None,
          req_data = Some [(''Group'', VStr ''dev''), (''Owners'', VStrList [''olga''])],
          req_json = None\<rparr>])"
proof -
  have u: "unset_or_empty (None :: string list option)
      \<and> unset_or_empty (Some ([] :: string list)) \<and> unset_or_empty (None :: string list option)"
    by (simp add: unset_or_empty_def)
  have v: "2 \<le> api_version (swarm_of 2 [2] (0::nat))"
    by (simp add: swarm_of_def)
  from groups_create_required [THEN conjunct1, rule_format, OF u,
      of "swarm_of 2 [2] (0::nat)" "''dev''" None None None None None None None None None None None None None "[]"] v
  have "groups_create (swarm_of 2 [2] (0::nat)) ''dev'' None (Some []) None None None None None None None None None None None None None None []
   = (Inl (SwarmError ''At least one of users, owners, or subgroups is required''), [])"
    by (simp add: prod_eq_iff)
  then show ?thesis
    by (simp add: groups_create_run groups_create_data_def Let_def run_defs)
qed

section \<open>Every operation\<close>

text \<open>What each remaining method does, as one equation.\<close>

lemma groups_get_run:
  "groups_get sw after limit fields' keywords s =
     (if api_version sw < 2 then (Inl (SwarmCompatibleError ''get''), s)
      else (response (request_fn sw s
           \<lparr>req_method = ''GET'', req_path = ''groups'',
            req_params = Some (groups_get_params after limit fields' keywords),
            req_data = None, req_json = None\<rparr>),
         s @ [Request
           \<lparr>req_method = ''GET'', req_path = ''groups'',
            req_params = Some (groups_get_params after limit fields' keywords),
            req_data = None, req_json = None\<rparr>]))"
  by (simp add: groups_get_def swarm_request_run minimal_version_run)

lemma groups_get_info_run:
  "groups_get_info sw identifier fields' s =
     (if api_version sw < 2 then (Inl (SwarmCompatibleError ''get_info''), s)
      else (response (request_fn sw s
           \<lparr>req_method = ''GET'', req_path = ''groups/'' @ identifier,
            req_params = Some (groups_get_info_params fields'),
            req_data = None, req_json = None\<rparr>),
         s @ [Request
           \<lparr>req_method = ''GET'', req_path = ''groups/'' @ identifier,
            req_params = Some (groups_get_info_params fields'),
            req_data = None, req_json = None\<rparr>]))"
  by (simp add: groups_get_info_def swarm_request_run minimal_version_run)

lemma groups_edit_run:
  "groups_edit sw identifier users owners subgroups name description email_address
        notify_reviews notify_commits use_mailing_list s =
     (if api_version sw < 2 then (Inl (SwarmCompatibleError ''edit''), s)
      else (response (request_fn sw s
           \<lparr>req_method = ''PATCH'', req_path = ''groups/'' @ identifier,
            req_params = None,
            req_data = Some (groups_edit_data users owners subgroups name description email_address
        notify_reviews notify_commits use_mailing_list), req_json = None\<rparr>),
         s @ [Request
           \<lparr>req_method = ''PATCH'', req_path = ''groups/'' @ identifier,
            req_params = None,
            req_data = Some (groups_edit_data users owners subgroups name description email_address
        notify_reviews notify_commits use_mailing_list), req_json = None\<rparr>]))"
  by (simp add: groups_edit_def swarm_request_run minimal_version_run)

lemma groups_delete_run:
  "groups_delete sw identifier s =
     (if api_version sw < 2 then (Inl (SwarmCompatibleError ''delete''), s)
      else (response (request_fn sw s
           \<lparr>req_method = ''DELETE'', req_path = ''groups/'' @ identifier,
            req_params = None,
            req_data = None, req_json = None\<rparr>),
         s @ [Request
           \<lparr>req_method = ''DELETE'', req_path = ''groups/'' @ identifier,
            req_params = None,
            req_data = None, req_json = None\<rparr>]))"
  by (simp add: groups_delete_def swarm_request_run minimal_version_run)

lemma reviews_get_info_run:
  "reviews_get_info sw review_id fields' s =
     (response (request_fn sw s
           \<lparr>req_method = ''GET'', req_path = ''reviews/'' @ py_str_int review_id,
            req_params = Some (reviews_get_info_params fields'),
            req_data = None, req_json = None\<rparr>),
       s @ [Request
           \<lparr>req_method = ''GET'', req_path = ''reviews/'' @ py_str_int review_id,
            req_params = Some (reviews_get_info_params fields'),
            req_data = None, req_json = None\<rparr>])"
  by (simp add: reviews_get_info_def swarm_request_run)

lemma reviews_get_transitions_run:
  "reviews_get_transitions sw review_id up_voters s =
     (if api_version sw < 9 then (Inl (SwarmCompatibleError ''get_transitions is supported with API v9+''), s)
      else (response (request_fn sw s
           \<lparr>req_method = ''GET'', req_path = ''reviews/'' @ py_str_int review_id @ ''/transitions'',
            req_params = Some (reviews_get_transitions_params up_voters),
            req_data = None, req_json = None\<rparr>),
         s @ [Request
           \<lparr>req_method = ''GET'', req_path = ''reviews/'' @ py_str_int review_id @ ''/transitions'',
            req_params = Some (reviews_get_transitions_params up_voters),
            req_data = None, req_json = None\<rparr>]))"
  by (simp add: reviews_get_transitions_def swarm_request_run py_raise_def)

lemma reviews_archive_run:
  "reviews_archive sw not_updated_since description s =
     (if api_version sw < 6 then (Inl (SwarmCompatibleError ''archive is supported with API v6+''), s)
      else (response (request_fn sw s
           \<lparr>req_method = ''POST'', req_path = ''reviews/archive'', req_params = None,
            req_data = Some (reviews_archive_data not_updated_since description), req_json = None\<rparr>),
         s @ [Request
           \<lparr>req_method = ''POST'', req_path = ''reviews/archive'', req_params = None,
            req_data = Some (reviews_archive_data not_updated_since description), req_json = None\<rparr>]))"
  by (simp add: reviews_archive_def swarm_request_run py_raise_def)

lemma reviews_cleanup_run:
  "reviews_cleanup sw review_id reopen s =
     (if api_version sw < 6 then (Inl (SwarmCompatibleError ''cleanup is supported with API v6+''), s)
      else (response (request_fn sw s
           \<lparr>req_method = ''POST'', req_path = ''reviews/'' @ py_str_int review_id @ ''/cleanup'',
            req_params = None,
            req_data = Some (reviews_cleanup_data reopen), req_json = None\<rparr>),
         s @ [Request
           \<lparr>req_method = ''POST'', req_path = ''reviews/'' @ py_str_int review_id @ ''/cleanup'',
            req_params = None,
            req_data = Some (reviews_cleanup_data reopen), req_json = None\<rparr>]))"
  by (simp add: reviews_cleanup_def swarm_request_run py_raise_def)

text \<open>The three shapes an outcome has, and what the predicates say of each.\<close>

lemma atomic_raised: "raised_own x \<Longrightarrow> atomic_call sw s (x, s)"
  by (simp add: atomic_call_def)

lemma atomic_request: "atomic_call sw s (response (request_fn sw s r), s @ [Request r])"
  by (simp add: atomic_call_def)

lemma atomic_version_request:
  "atomic_call sw s
     (response (request_fn sw (s @ [GetVersion]) r), s @ [GetVersion, Request r])"
  by (simp add: atomic_call_def)

lemma passes_request: "passes_through sw s (response (request_fn sw s r), s @ [Request r])"
  by (simp add: passes_through_def response_def split: sum.splits)

lemma passes_version_request:
  "passes_through sw s
     (response (request_fn sw (s @ [GetVersion]) r), s @ [GetVersion, Request r])"
  by (simp add: passes_through_def response_def split: sum.splits)

lemma reviews_get_params_error:
  "reviews_get_params sw after limit fields' authors changes has_reviewers ids keywords
         participants projects states passes_tests not_updated_since has_voted my_comments
     = Inl e \<Longrightarrow>
   e = SwarmCompatibleError ''author field is supported from API version >= 2''"
  by (simp add: reviews_get_params_def Let_def split: if_splits)

lemma reviews_create_data_error:
  "reviews_create_data sw change description reviewers required_reviewers reviewer_groups
     = Inl e \<Longrightarrow>
   \<exists>m. e = SwarmCompatibleError m"
  by (auto simp add: reviews_create_data_def Let_def split: if_splits)

lemma groups_create_data_error:
  "groups_create_data identifier users owners subgroups name description email_address
        notify_reviews notify_commits use_mailing_list max_results max_scan_rows
        max_lock_time max_open_files max_memory timeout password_timeout
     = Inl e \<Longrightarrow>
   e = SwarmError ''At least one of users, owners, or subgroups is required''"
  by (simp add: groups_create_data_def Let_def split: if_splits)

lemma groups_get_atomic:
  "atomic_call sw s
     (groups_get sw after limit fields' keywords s)"
  by (simp add: groups_get_run atomic_raised atomic_request)

lemma groups_get_passes:
  "\<not> raised_own (fst (groups_get sw after limit fields' keywords s)) \<Longrightarrow>
   passes_through sw s (groups_get sw after limit fields' keywords s)"
  by (simp add: groups_get_run passes_request split: if_splits)

lemma groups_get_info_atomic:
  "atomic_call sw s
     (groups_get_info sw identifier fields' s)"
  by (simp add: groups_get_info_run atomic_raised atomic_request)

lemma groups_get_info_passes:
  "\<not> raised_own (fst (groups_get_info sw identifier fields' s)) \<Longrightarrow>
   passes_through sw s (groups_get_info sw identifier fields' s)"
  by (simp add: groups_get_info_run passes_request split: if_splits)

lemma groups_edit_atomic:
  "atomic_call sw s
     (groups_edit sw identifier users owners subgroups name description email_address
        notify_reviews notify_commits use_mailing_list s)"
  by (simp add: groups_edit_run atomic_raised atomic_request)

lemma groups_edit_passes:
  "\<not> raised_own (fst (groups_edit sw identifier users owners subgroups name description email_address
        notify_reviews notify_commits use_mailing_list s)) \<Longrightarrow>
   passes_through sw s (groups_edit sw identifier users owners subgroups name description email_address
        notify_reviews notify_commits use_mailing_list s)"
  by (simp add: groups_edit_run passes_request split: if_splits)

lemma groups_delete_atomic:
  "atomic_call sw s
     (groups_delete sw identifier s)"
  by (simp add: groups_delete_run atomic_raised atomic_request)

lemma groups_delete_passes:
  "\<not> raised_own (fst (groups_delete sw identifier s)) \<Longrightarrow>
   passes_through sw s (groups_delete sw identifier s)"
  by (simp add: groups_delete_run passes_request split: if_splits)

lemma reviews_get_info_atomic:
  "atomic_call sw s
     (reviews_get_info sw review_id fields' s)"
  by (simp add: reviews_get_info_run atomic_raised atomic_request)

lemma reviews_get_info_passes:
  "\<not> raised_own (fst (reviews_get_info sw review_id fields' s)) \<Longrightarrow>
   passes_through sw s (reviews_get_info sw review_id fields' s)"
  by (simp add: reviews_get_info_run passes_request split: if_splits)

lemma reviews_get_transitions_atomic:
  "atomic_call sw s
     (reviews_get_transitions sw review_id up_voters s)"
  by (simp add: reviews_get_transitions_run atomic_raised atomic_request)

lemma reviews_get_transitions_passes:
  "\<not> raised_own (fst (reviews_get_transitions sw review_id up_voters s)) \<Longrightarrow>
   passes_through sw s (reviews_get_transitions sw review_id up_voters s)"
  by (simp add: reviews_get_transitions_run passes_request split: if_splits)

lemma reviews_archive_atomic:
  "atomic_call sw s
     (reviews_archive sw not_updated_since description s)"
  by (simp add: reviews_archive_run atomic_raised atomic_request)

lemma reviews_archive_passes:
  "\<not> raised_own (fst (reviews_archive sw not_updated_since description s)) \<Longrightarrow>
   passes_through sw s (reviews_archive sw not_updated_since description s)"
  by (simp add: reviews_archive_run passes_request split: if_splits)

lemma reviews_cleanup_atomic:
  "atomic_call sw s
     (reviews_cleanup sw review_id reopen s)"
  by (simp add: reviews_cleanup_run atomic_raised atomic_request)

lemma reviews_cleanup_passes:
  "\<not> raised_own (fst (reviews_cleanup sw review_id reopen s)) \<Longrightarrow>
   passes_through sw s (reviews_cleanup sw review_id reopen s)"
  by (simp add: reviews_cleanup_run passes_request split: if_splits)

lemma reviews_get_atomic:
  "atomic_call sw s
     (reviews_get sw after limit fields' authors changes has_reviewers ids keywords
         participants projects states passes_tests not_updated_since has_voted my_comments s)"
proof (cases "(reviews_get_params sw after limit fields' authors changes has_reviewers ids keywords
         participants projects states passes_tests not_updated_since has_voted my_comments)")
  case (Inl e)
  with reviews_get_params_error [OF Inl] show ?thesis
    by (auto simp add: reviews_get_run atomic_raised)
next
  case (Inr d)
  then show ?thesis
    by (simp add: reviews_get_run atomic_raised atomic_request)
qed

lemma reviews_get_passes:
  assumes "\<not> raised_own
      (fst (reviews_get sw after limit fields' authors changes has_reviewers ids keywords
         participants projects states passes_tests not_updated_since has_voted my_comments s))"
  shows "passes_through sw s
      (reviews_get sw after limit fields' authors changes has_reviewers ids keywords
         participants projects states passes_tests not_updated_since has_voted my_comments s)"
proof (cases "(reviews_get_params sw after limit fields' authors changes has_reviewers ids keywords
         participants projects states passes_tests not_updated_since has_voted my_comments)")
  case (Inl e)
  with reviews_get_params_error [OF Inl] assms show ?thesis
    by (auto simp add: reviews_get_run split: if_splits)
next
  case (Inr d)
  with assms show ?thesis
    by (simp add: reviews_get_run passes_request split: if_splits)
qed

lemma reviews_create_atomic:
  "atomic_call sw s
     (reviews_create sw change description reviewers required_reviewers reviewer_groups s)"
proof (cases "(reviews_create_data sw change description reviewers required_reviewers reviewer_groups)")
  case (Inl e)
  with reviews_create_data_error [OF Inl] show ?thesis
    by (auto simp add: reviews_create_run atomic_raised)
next
  case (Inr d)
  then show ?thesis
    by (simp add: reviews_create_run atomic_raised atomic_request)
qed

lemma reviews_create_passes:
  assumes "\<not> raised_own
      (fst (reviews_create sw change description reviewers required_reviewers reviewer_groups s))"
  shows "passes_through sw s
      (reviews_create sw change description reviewers required_reviewers reviewer_groups s)"
proof (cases "(reviews_create_data sw change description reviewers required_reviewers reviewer_groups)")
  case (Inl e)
  with reviews_create_data_error [OF Inl] assms show ?thesis
    by (auto simp add: reviews_create_run split: if_splits)
next
  case (Inr d)
  with assms show ?thesis
    by (simp add: reviews_create_run passes_request split: if_splits)
qed

lemma groups_create_atomic:
  "atomic_call (sw :: ('e, 'j) swarm) s
     (groups_create sw identifier users owners subgroups name description email_address
        notify_reviews notify_commits use_mailing_list max_results max_scan_rows
        max_lock_time max_open_files max_memory timeout password_timeout s)"
proof (cases "(groups_create_data identifier users owners subgroups name description email_address
        notify_reviews notify_commits use_mailing_list max_results max_scan_rows
        max_lock_time max_open_files max_memory timeout password_timeout) :: 'e error + dict")
  case (Inl e)
  with groups_create_data_error [OF Inl] show ?thesis
    by (auto simp add: groups_create_run atomic_raised)
next
  case (Inr d)
  then show ?thesis
    by (simp add: groups_create_run atomic_raised atomic_version_request)
qed

lemma groups_create_passes:
  assumes "\<not> raised_own
      (fst (groups_create (sw :: ('e, 'j) swarm) identifier users owners subgroups name description email_address
        notify_reviews notify_commits use_mailing_list max_results max_scan_rows
        max_lock_time max_open_files max_memory timeout password_timeout s))"
  shows "passes_through sw s
      (groups_create sw identifier users owners subgroups name description email_address
        notify_reviews notify_commits use_mailing_list max_results max_scan_rows
        max_lock_time max_open_files max_memory timeout password_timeout s)"
proof (cases "(groups_create_data identifier users owners subgroups name description email_address
        notify_reviews notify_commits use_mailing_list max_results max_scan_rows
        max_lock_time max_open_files max_memory timeout password_timeout) :: 'e error + dict")
  case (Inl e)
  with groups_create_data_error [OF Inl] assms show ?thesis
    by (auto simp add: groups_create_run split: if_splits)
next
  case (Inr d)
  with assms show ?thesis
    by (simp add: groups_create_run passes_version_request split: if_splits)
qed

text \<open>
  Claim C7. Every operation of \<^verbatim>\<open>Groups\<close> and \<^verbatim>\<open>Reviews\<close> is atomic with respect to
  the transport. A call either raises by itself (the validation error or a
  compatibility error) and leaves the log of the client as it was, so that the
  request method was not invoked at all; or it invokes the request method exactly
  once, as its last step, and its outcome is the outcome of that invocation. No call
  both raises one of these errors and dispatches a request. (\<^verbatim>\<open>Groups.create\<close> asks
  \<^verbatim>\<open>get_version()\<close> before its one request; that call is the client's own and is not
  an invocation of the request method by the operation.)
\<close>

theorem operations_atomic:
  "(\<forall>after limit fields' keywords.
      atomic_call sw s
        (groups_get sw after limit fields' keywords s))
   \<and> (\<forall>identifier fields'.
      atomic_call sw s
        (groups_get_info sw identifier fields' s))
   \<and> (\<forall>identifier users owners subgroups name description email_address notify_reviews
      notify_commits use_mailing_list max_results max_scan_rows max_lock_time
      max_open_files max_memory timeout password_timeout.
      atomic_call sw s
        (groups_create sw identifier users owners subgroups name description email_address
          notify_reviews notify_commits use_mailing_list max_results max_scan_rows
          max_lock_time max_open_files max_memory timeout password_timeout s))
   \<and> (\<forall>identifier users owners subgroups name description email_address notify_reviews
      notify_commits use_mailing_list.
      atomic_call sw s
        (groups_edit sw identifier users owners subgroups name description email_address
          notify_reviews notify_commits use_mailing_list s))
   \<and> (\<forall>identifier.
      atomic_call sw s
        (groups_delete sw identifier s))
   \<and> (\<forall>after limit fields' authors changes has_reviewers ids keywords participants
      projects states passes_tests not_updated_since has_voted my_comments.
      atomic_call sw s
        (reviews_get sw after limit fields' authors changes has_reviewers ids keywords participants
          projects states passes_tests not_updated_since has_voted my_comments s))
   \<and> (\<forall>review_id fields'.
      atomic_call sw s
        (reviews_get_info sw review_id fields' s))
   \<and> (\<forall>review_id up_voters.
      atomic_call sw s
        (reviews_get_transitions sw review_id up_voters s))
   \<and> (\<forall>change description reviewers required_reviewers reviewer_groups.
      atomic_call sw s
        (reviews_create sw change description reviewers required_reviewers reviewer_groups s))
   \<and> (\<forall>not_updated_since description.
      atomic_call sw s
        (reviews_archive sw not_updated_since description s))
   \<and> (\<forall>review_id reopen.
      atomic_call sw s
        (reviews_cleanup sw review_id reopen s))"
  by (intro conjI allI)
     (rule groups_get_atomic,
      rule groups_get_info_atomic,
      rule groups_create_atomic,
      rule groups_edit_atomic,
      rule groups_delete_atomic,
      rule reviews_get_atomic,
      rule reviews_get_info_atomic,
      rule reviews_get_transitions_atomic,
      rule reviews_create_atomic,
      rule reviews_archive_atomic,
      rule reviews_cleanup_atomic)

text \<open>
  Claim C9. For every operation of \<^verbatim>\<open>Groups\<close> and \<^verbatim>\<open>Reviews\<close>: whenever the call does
  not raise by itself before dispatching, it ends with a request, and the decoded
  value the request method returns for that request is exactly what the operation
  returns; a failure of the transport is passed on as that failure.
\<close>

theorem operations_pass_through:
  "(\<forall>after limit fields' keywords.
      \<not> raised_own (fst (groups_get sw after limit fields' keywords s)) \<longrightarrow>
      passes_through sw s
        (groups_get sw after limit fields' keywords s))
   \<and> (\<forall>identifier fields'.
      \<not> raised_own (fst (groups_get_info sw identifier fields' s)) \<longrightarrow>
      passes_through sw s
        (groups_get_info sw identifier fields' s))
   \<and> (\<forall>identifier users owners subgroups name description email_address notify_reviews
      notify_commits use_mailing_list max_results max_scan_rows max_lock_time
      max_open_files max_memory timeout password_timeout.
      \<not> raised_own (fst (groups_create sw identifier users owners subgroups name description email_address
          notify_reviews notify_commits use_mailing_list max_results max_scan_rows
          max_lock_time max_open_files max_memory timeout password_timeout s)) \<longrightarrow>
      passes_through sw s
        (groups_create sw identifier users owners subgroups name description email_address
          notify_reviews notify_commits use_mailing_list max_results max_scan_rows
          max_lock_time max_open_files max_memory timeout password_timeout s))
   \<and> (\<forall>identifier users owners subgroups name description email_address notify_reviews
      notify_commits use_mailing_list.
      \<not> raised_own (fst (groups_edit sw identifier users owners subgroups name description email_address
          notify_reviews notify_commits use_mailing_list s)) \<longrightarrow>
      passes_through sw s
        (groups_edit sw identifier users owners subgroups name description email_address
          notify_reviews notify_commits use_mailing_list s))
   \<and> (\<forall>identifier.
      \<not> raised_own (fst (groups_delete sw identifier s)) \<longrightarrow>
      passes_through sw s
        (groups_delete sw identifier s))
   \<and> (\<forall>after limit fields' authors changes has_reviewers ids keywords participants
      projects states passes_tests not_updated_since has_voted my_comments.
      \<not> raised_own (fst (reviews_get sw after limit fields' authors changes has_reviewers ids keywords participants
          projects states passes_tests not_updated_since has_voted my_comments s)) \<longrightarrow>
      passes_through sw s
        (reviews_get sw after limit fields' authors changes has_reviewers ids keywords participants
          projects states passes_tests not_updated_since has_voted my_comments s))
   \<and> (\<forall>review_id fields'.
      \<not> raised_own (fst (reviews_get_info sw review_id fields' s)) \<longrightarrow>
      passes_through sw s
        (reviews_get_info sw review_id fields' s))
   \<and> (\<forall>review_id up_voters.
      \<not> raised_own (fst (reviews_get_transitions sw review_id up_voters s)) \<longrightarrow>
      passes_through sw s
        (reviews_get_transitions sw review_id up_voters s))
   \<and> (\<forall>change description reviewers required_reviewers reviewer_groups.
      \<not> raised_own (fst (reviews_create sw change description reviewers required_reviewers reviewer_groups s)) \<longrightarrow>
      passes_through sw s
        (reviews_create sw change description reviewers required_reviewers reviewer_groups s))
   \<and> (\<forall>not_updated_since description.
      \<not> raised_own (fst (reviews_archive sw not_updated_since description s)) \<longrightarrow>
      passes_through sw s
        (reviews_archive sw not_updated_since description s))
   \<and> (\<forall>review_id reopen.
      \<not> raised_own (fst (reviews_cleanup sw review_id reopen s)) \<longrightarrow>
      passes_through sw s
        (reviews_cleanup sw review_id reopen s))"
  by (intro conjI allI impI)
     (erule groups_get_passes,
      erule groups_get_info_passes,
      erule groups_create_passes,
      erule groups_edit_passes,
      erule groups_delete_passes,
      erule reviews_get_passes,
      erule reviews_get_info_passes,
      erule reviews_get_transitions_passes,
      erule reviews_create_passes,
      erule reviews_archive_passes,
      erule reviews_cleanup_passes)

theorem operations_pass_through_witness:
  "\<not> raised_own
       (fst (groups_get (swarm_of 2 [2] (5::nat)) None (Some 10) None None []))
   \<and> passes_through (swarm_of 2 [2] (5::nat)) []
        (groups_get (swarm_of 2 [2] (5::nat)) None (Some 10) None None [])
   \<and> fst (groups_get (swarm_of 2 [2] (5::nat)) None (Some 10) None None []) = Inr 5"
proof -
  have h: "\<not> raised_own
       (fst (groups_get (swarm_of 2 [2] (5::nat)) None (Some 10) None None []))"
    by (simp add: groups_get_run swarm_of_def response_def)
  from operations_pass_through [THEN conjunct1, rule_format, OF h] h show ?thesis
    by (simp add: groups_get_run swarm_of_def response_def)
qed

section \<open>Which keys a mapping holds\<close>

text \<open>The keys of each built mapping, and of the mapping each operation sends.\<close>

lemma groups_get_params_keys:
  "keys_iff (groups_get_params after limit fields' keywords)
     [(''after'', truthy (str_arg after)), (''max'', truthy (int_arg limit)),
      (''fields'', truthy (strs_arg fields')),
      (''keywords'', truthy (str_arg keywords))]"
  by (simp add: groups_get_params_def Let_def keys_iff_def)

lemma groups_get_sends_keys:
  assumes "dispatched s (groups_get sw after limit fields' keywords s) = Some (s', r)"
  shows "keys_iff (mapping_of r)
     [(''after'', truthy (str_arg after)), (''max'', truthy (int_arg limit)),
      (''fields'', truthy (strs_arg fields')),
      (''keywords'', truthy (str_arg keywords))]"
proof -
  from assms have "mapping_of r = groups_get_params after limit fields' keywords"
    by (auto simp add: groups_get_run mapping_of_def split: if_splits)
  then show ?thesis
    by (simp add: groups_get_params_keys)
qed

lemma groups_get_info_params_keys:
  "keys_iff (groups_get_info_params fields')
     [(''fields'', truthy (strs_arg fields'))]"
  by (simp add: groups_get_info_params_def Let_def keys_iff_def)

lemma groups_get_info_sends_keys:
  assumes "dispatched s (groups_get_info sw identifier fields' s) = Some (s', r)"
  shows "keys_iff (mapping_of r)
     [(''fields'', truthy (strs_arg fields'))]"
proof -
  from assms have "mapping_of r = groups_get_info_params fields'"
    by (auto simp add: groups_get_info_run mapping_of_def split: if_splits)
  then show ?thesis
    by (simp add: groups_get_info_params_keys)
qed

lemma groups_create_data_keys:
  assumes "groups_create_data identifier users owners subgroups name description email_address
        notify_reviews notify_commits use_mailing_list max_results max_scan_rows
        max_lock_time max_open_files max_memory timeout password_timeout = (Inr d :: 'e error + dict)"
  shows "keys_iff d
     [(''Users'', truthy (strs_arg users)), (''Owners'', truthy (strs_arg owners)),
      (''Subgroups'', truthy (strs_arg subgroups)),
      (''config[name]'', truthy (str_arg name)),
      (''config[description]'', truthy (str_arg description)),
      (''config[emailAddress]'', truthy (str_arg email_address)),
      (''config[emailFlags][reviews]'', truthy (bool_arg notify_reviews)),
      (''config[emailFlags][commits]'', truthy (bool_arg notify_commits)),
      (''config[useMailingList]'', truthy (bool_arg use_mailing_list)),
      (''MaxResults'', truthy (int_arg max_results)),
      (''MaxScanRows'', truthy (int_arg max_scan_rows)),
      (''MaxLockTime'', truthy (int_arg max_lock_time)),
      (''MaxOpenFiles'', truthy (int_arg max_open_files)),
      (''MaxMemory'', truthy (int_arg max_memory)),
      (''Timeout'', truthy (int_arg timeout)),
      (''PasswordTimeout'', truthy (int_arg password_timeout))]"
    (is "?P d")
proof -
  have "case (groups_create_data identifier users owners subgroups name description email_address
        notify_reviews notify_commits use_mailing_list max_results max_scan_rows
        max_lock_time max_open_files max_memory timeout password_timeout) :: 'e error + dict of
      Inl e \<Rightarrow> True | Inr p \<Rightarrow> ?P p"
    by (simp add: groups_create_data_def Let_def keys_iff_def)
  with assms show ?thesis by simp
qed

lemma groups_create_sends_keys:
  assumes "dispatched s (groups_create (sw :: ('e, 'j) swarm) identifier users owners subgroups name description email_address
        notify_reviews notify_commits use_mailing_list max_results max_scan_rows
        max_lock_time max_open_files max_memory timeout password_timeout s) = Some (s', r)"
  shows "keys_iff (mapping_of r)
     [(''Users'', truthy (strs_arg users)), (''Owners'', truthy (strs_arg owners)),
      (''Subgroups'', truthy (strs_arg subgroups)),
      (''config[name]'', truthy (str_arg name)),
      (''config[description]'', truthy (str_arg description)),
      (''config[emailAddress]'', truthy (str_arg email_address)),
      (''config[emailFlags][reviews]'', truthy (bool_arg notify_reviews)),
      (''config[emailFlags][commits]'', truthy (bool_arg notify_commits)),
      (''config[useMailingList]'', truthy (bool_arg use_mailing_list)),
      (''MaxResults'', truthy (int_arg max_results)),
      (''MaxScanRows'', truthy (int_arg max_scan_rows)),
      (''MaxLockTime'', truthy (int_arg max_lock_time)),
      (''MaxOpenFiles'', truthy (int_arg max_open_files)),
      (''MaxMemory'', truthy (int_arg max_memory)),
      (''Timeout'', truthy (int_arg timeout)),
      (''PasswordTimeout'', truthy (int_arg password_timeout))]"
proof (cases "(groups_create_data identifier users owners subgroups name description email_address
        notify_reviews notify_commits use_mailing_list max_results max_scan_rows
        max_lock_time max_open_files max_memory timeout password_timeout) :: 'e error + dict")
  case (Inl e)
  with assms show ?thesis
    by (simp add: groups_create_run split: if_splits)
next
  case (Inr d)
  with assms have "mapping_of r = d"
    by (auto simp add: groups_create_run mapping_of_def split: if_splits)
  with groups_create_data_keys [OF Inr] show ?thesis
    by simp
qed

lemma groups_edit_data_keys:
  "keys_iff (groups_edit_data users owners subgroups name description email_address
        notify_reviews notify_commits use_mailing_list)
     [(''Users'', truthy (strs_arg users)), (''Owners'', truthy (strs_arg owners)),
      (''Subgroups'', truthy (strs_arg subgroups)),
      (''config[name]'', truthy (str_arg name)),
      (''config[description]'', truthy (str_arg description)),
      (''config[emailAddress]'', truthy (str_arg email_address)),
      (''config[emailFlags][reviews]'', truthy (bool_arg notify_reviews)),
      (''config[emailFlags][commits]'', truthy (bool_arg notify_commits)),
      (''config[useMailingList]'', truthy (bool_arg use_mailing_list))]"
  by (simp add: groups_edit_data_def Let_def keys_iff_def)

lemma groups_edit_sends_keys:
  assumes "dispatched s (groups_edit sw identifier users owners subgroups name description email_address
        notify_reviews notify_commits use_mailing_list s) = Some (s', r)"
  shows "keys_iff (mapping_of r)
     [(''Users'', truthy (strs_arg users)), (''Owners'', truthy (strs_arg owners)),
      (''Subgroups'', truthy (strs_arg subgroups)),
      (''config[name]'', truthy (str_arg name)),
      (''config[description]'', truthy (str_arg description)),
      (''config[emailAddress]'', truthy (str_arg email_address)),
      (''config[emailFlags][reviews]'', truthy (bool_arg notify_reviews)),
      (''config[emailFlags][commits]'', truthy (bool_arg notify_commits)),
      (''config[useMailingList]'', truthy (bool_arg use_mailing_list))]"
proof -
  from assms have "mapping_of r = groups_edit_data users owners subgroups name description email_address
        notify_reviews notify_commits use_mailing_list"
    by (auto simp add: groups_edit_run mapping_of_def split: if_splits)
  then show ?thesis
    by (simp add: groups_edit_data_keys)
qed

lemma reviews_get_sends_keys:
  assumes "dispatched s (reviews_get sw after limit fields' authors changes has_reviewers ids keywords
         participants projects states passes_tests not_updated_since has_voted my_comments s) = Some (s', r)"
  shows "keys_iff (mapping_of r)
     [(''after'', truthy (int_arg after)), (''max'', truthy (int_arg limit)),
      (''fields'', truthy (strs_arg fields')),
      (''author'', truthy (strs_arg authors)),
      (''change'', truthy (ints_arg changes)),
      (''hasReviewers'', has_reviewers \<noteq> None),
      (''ids'', truthy (ints_arg ids)), (''keywords'', truthy (str_arg keywords)),
      (''participants'', truthy (strs_arg participants)),
      (''project'', truthy (strs_arg projects)),
      (''state'', truthy (strs_arg states)),
      (''passesTests'', passes_tests \<noteq> None),
      (''notUpdatedSince'', truthy (str_arg not_updated_since)),
      (''hasVoted'', truthy (str_arg has_voted)),
      (''myComments'', my_comments \<noteq> None)]"
proof (cases "(reviews_get_params sw after limit fields' authors changes has_reviewers ids keywords
         participants projects states passes_tests not_updated_since has_voted my_comments)")
  case (Inl e)
  with assms show ?thesis
    by (simp add: reviews_get_run split: if_splits)
next
  case (Inr d)
  with assms have "mapping_of r = d"
    by (auto simp add: reviews_get_run mapping_of_def split: if_splits)
  with reviews_get_params_keys [OF Inr] show ?thesis
    by simp
qed

lemma reviews_get_info_params_keys:
  "keys_iff (reviews_get_info_params fields')
     [(''fields'', truthy (strs_arg fields'))]"
  by (simp add: reviews_get_info_params_def Let_def keys_iff_def)

lemma reviews_get_info_sends_keys:
  assumes "dispatched s (reviews_get_info sw review_id fields' s) = Some (s', r)"
  shows "keys_iff (mapping_of r)
     [(''fields'', truthy (strs_arg fields'))]"
proof -
  from assms have "mapping_of r = reviews_get_info_params fields'"
    by (auto simp add: reviews_get_info_run mapping_of_def split: if_splits)
  then show ?thesis
    by (simp add: reviews_get_info_params_keys)
qed

lemma reviews_get_transitions_params_keys:
  "keys_iff (reviews_get_transitions_params up_voters)
     [(''upVoters'', truthy (str_arg up_voters))]"
  by (simp add: reviews_get_transitions_params_def Let_def keys_iff_def)

lemma reviews_get_transitions_sends_keys:
  assumes "dispatched s (reviews_get_transitions sw review_id up_voters s) = Some (s', r)"
  shows "keys_iff (mapping_of r)
     [(''upVoters'', truthy (str_arg up_voters))]"
proof -
  from assms have "mapping_of r = reviews_get_transitions_params up_voters"
    by (auto simp add: reviews_get_transitions_run mapping_of_def split: if_splits)
  then show ?thesis
    by (simp add: reviews_get_transitions_params_keys)
qed

lemma reviews_create_data_keys:
  assumes "reviews_create_data sw change description reviewers required_reviewers reviewer_groups = (Inr d)"
  shows "keys_iff d
     [(''description'', truthy (str_arg description)),
      (''reviewers'', truthy (strs_arg reviewers)),
      (''requiredReviewers'', truthy (strs_arg required_reviewers)),
      (''reviewerGroups'', truthy (strs_arg reviewer_groups))]"
    (is "?P d")
proof -
  have "case (reviews_create_data sw change description reviewers required_reviewers reviewer_groups) of
      Inl e \<Rightarrow> True | Inr p \<Rightarrow> ?P p"
    by (simp add: reviews_create_data_def Let_def keys_iff_def)
  with assms show ?thesis by simp
qed

lemma reviews_create_sends_keys:
  assumes "dispatched s (reviews_create sw change description reviewers required_reviewers reviewer_groups s) = Some (s', r)"
  shows "keys_iff (mapping_of r)
     [(''description'', truthy (str_arg description)),
      (''reviewers'', truthy (strs_arg reviewers)),
      (''requiredReviewers'', truthy (strs_arg required_reviewers)),
      (''reviewerGroups'', truthy (strs_arg reviewer_groups))]"
proof (cases "(reviews_create_data sw change description reviewers required_reviewers reviewer_groups)")
  case (Inl e)
  with assms show ?thesis
    by (simp add: reviews_create_run split: if_splits)
next
  case (Inr d)
  with assms have "mapping_of r = d"
    by (auto simp add: reviews_create_run mapping_of_def split: if_splits)
  with reviews_create_data_keys [OF Inr] show ?thesis
    by simp
qed

lemma reviews_cleanup_data_keys:
  "keys_iff (reviews_cleanup_data reopen)
     [(''reopen'', truthy (bool_arg reopen))]"
  by (simp add: reviews_cleanup_data_def Let_def keys_iff_def)

lemma reviews_cleanup_sends_keys:
  assumes "dispatched s (reviews_cleanup sw review_id reopen s) = Some (s', r)"
  shows "keys_iff (mapping_of r)
     [(''reopen'', truthy (bool_arg reopen))]"
proof -
  from assms have "mapping_of r = reviews_cleanup_data reopen"
    by (auto simp add: reviews_cleanup_run mapping_of_def split: if_splits)
  then show ?thesis
    by (simp add: reviews_cleanup_data_keys)
qed

text \<open>When each of these operations dispatches a request.\<close>

lemma groups_get_dispatches:
  "(dispatched s
      (groups_get sw after limit fields' keywords s) \<noteq> None)
    = (2 \<le> api_version sw)"
  by (auto simp add: groups_get_run)

lemma groups_get_info_dispatches:
  "(dispatched s
      (groups_get_info sw identifier fields' s) \<noteq> None)
    = (2 \<le> api_version sw)"
  by (auto simp add: groups_get_info_run)

lemma groups_create_dispatches:
  "(dispatched s
      (groups_create (sw :: ('a, 'b) swarm) identifier users owners subgroups name description email_address
        notify_reviews notify_commits use_mailing_list max_results max_scan_rows
        max_lock_time max_open_files max_memory timeout password_timeout s) \<noteq> None)
    = (2 \<le> api_version sw
      \<and> \<not> (unset_or_empty users \<and> unset_or_empty owners \<and> unset_or_empty subgroups))"
proof (cases "unset_or_empty users \<and> unset_or_empty owners \<and> unset_or_empty subgroups")
  case True
  then show ?thesis
    by (simp add: groups_create_run groups_create_data_raises)
next
  case False
  from groups_create_data_builds [OF False] obtain data where
    "groups_create_data identifier users owners subgroups name description email_address
        notify_reviews notify_commits use_mailing_list max_results max_scan_rows
        max_lock_time max_open_files max_memory timeout password_timeout = (Inr data :: 'a error + dict)"
    by blast
  with False show ?thesis
    by (auto simp add: groups_create_run)
qed

lemma groups_edit_dispatches:
  "(dispatched s
      (groups_edit sw identifier users owners subgroups name description email_address
        notify_reviews notify_commits use_mailing_list s) \<noteq> None)
    = (2 \<le> api_version sw)"
  by (auto simp add: groups_edit_run)

lemma reviews_get_dispatches:
  "(dispatched s
      (reviews_get sw after limit fields' authors changes has_reviewers ids keywords
         participants projects states passes_tests not_updated_since has_voted my_comments s) \<noteq> None)
    = (unset_or_empty authors \<or> 2 \<le> api_version sw)"
proof (cases "unset_or_empty authors \<or> 2 \<le> api_version sw")
  case True
  from reviews_get_builds [OF True] obtain params where
    "reviews_get_params sw after limit fields' authors changes has_reviewers ids keywords
         participants projects states passes_tests not_updated_since has_voted my_comments = Inr params"
    by blast
  with True show ?thesis
    by (simp add: reviews_get_run)
next
  case False
  then have "truthy (strs_arg authors) \<and> api_version sw < 2"
    by (auto simp add: truthy_strs_arg)
  from reviews_get_params_raises [OF this] False show ?thesis
    by (simp add: reviews_get_run)
qed

lemma reviews_get_info_dispatches:
  "dispatched s
      (reviews_get_info sw review_id fields' s) \<noteq> None"
  by (auto simp add: reviews_get_info_run)

lemma reviews_get_transitions_dispatches:
  "(dispatched s
      (reviews_get_transitions sw review_id up_voters s) \<noteq> None)
    = (9 \<le> api_version sw)"
  by (auto simp add: reviews_get_transitions_run)

lemma reviews_create_dispatches:
  "(dispatched s
      (reviews_create sw change description reviewers required_reviewers reviewer_groups s) \<noteq> None)
    = ((unset_or_empty required_reviewers \<or> api_version sw \<noteq> 1)
      \<and> (unset_or_empty reviewer_groups \<or> 7 \<le> api_version sw))"
proof (cases "\<not> unset_or_empty required_reviewers \<and> api_version sw = 1")
  case True
  from reviews_create_data_required_v1 [OF True] True show ?thesis
    by (simp add: reviews_create_run)
next
  case a: False
  show ?thesis
  proof (cases "\<not> unset_or_empty reviewer_groups \<and> api_version sw < 7")
    case True
    from reviews_create_data_groups_below_7 [OF a True] True show ?thesis
      by (auto simp add: reviews_create_run)
  next
    case False
    from reviews_create_data_builds [OF a False] obtain data where
      "reviews_create_data sw change description reviewers required_reviewers reviewer_groups = Inr data"
      by blast
    with a False show ?thesis
      by (auto simp add: reviews_create_run)
  qed
qed

lemma reviews_cleanup_dispatches:
  "(dispatched s
      (reviews_cleanup sw review_id reopen s) \<noteq> None)
    = (6 \<le> api_version sw)"
  by (auto simp add: reviews_cleanup_run)

text \<open>
  Claim C4, as stated, fails: no reading of "non-null/non-empty" fits every optional
  parameter. \<^verbatim>\<open>has_reviewers=False\<close> puts its key \<^verbatim>\<open>hasReviewers\<close> into the query
  parameters of \<^verbatim>\<open>Reviews.get\<close>, while \<^verbatim>\<open>notify_reviews=False\<close>, the same value for a
  parameter of the same type, leaves \<^verbatim>\<open>config[emailFlags][reviews]\<close> out of the
  payload of \<^verbatim>\<open>Groups.edit\<close>; so does \<^verbatim>\<open>limit=0\<close> with \<^verbatim>\<open>max\<close>.
\<close>

theorem optional_keys_counterexample:
  "dispatched []
     (reviews_get (swarm_of 2 [2] (0::nat)) None (Some 0) None None None (Some False) None None
        None None None None None None None [])
   = Some ([], \<lparr>req_method = ''GET'', req_path = ''reviews'',
        req_params = Some [(''hasReviewers'', VStr ''0'')],
        req_data = None, req_json = None\<rparr>)
   \<and> dispatched []
     (groups_edit (swarm_of 2 [2] (0::nat)) ''dev'' None None None None None None
        (Some False) None None [])
   = Some ([], \<lparr>req_method = ''PATCH'', req_path = ''groups/dev'', req_params = None,
        req_data = Some [], req_json = None\<rparr>)"
  by (simp add: reviews_get_run reviews_get_params_def groups_edit_run groups_edit_data_def
        Let_def run_defs)

text \<open>
  Claim C4, amended. For every operation of \<^verbatim>\<open>Groups\<close> and \<^verbatim>\<open>Reviews\<close> that has
  optional parameters, and for the mapping of every request the operation dispatches:
  the wire key of an optional parameter other than \<^verbatim>\<open>has_reviewers\<close>, \<^verbatim>\<open>passes_tests\<close>
  and \<^verbatim>\<open>my_comments\<close> is in the mapping if and only if the argument is true in Python's
  sense (not \<^verbatim>\<open>None\<close>, and not \<^verbatim>\<open>0\<close>, \<^verbatim>\<open>False\<close>, the empty string or the empty list); the
  wire keys of those three filters of \<^verbatim>\<open>Reviews.get\<close> are in the mapping if and only if
  the argument is not \<^verbatim>\<open>None\<close>. In particular an optional argument that was left out
  produces no wire key. The second half of the statement says when each of these
  operations dispatches a request: exactly when none of its guards fires.
\<close>

theorem optional_keys:
  "(\<forall>after limit fields' keywords s' r.
      dispatched s
        (groups_get sw after limit fields' keywords s)
      = Some (s', r) \<longrightarrow>
      keys_iff (mapping_of r)
        [(''after'', truthy (str_arg after)), (''max'', truthy (int_arg limit)),
         (''fields'', truthy (strs_arg fields')),
         (''keywords'', truthy (str_arg keywords))])
   \<and> (\<forall>identifier fields' s' r.
      dispatched s
        (groups_get_info sw identifier fields' s)
      = Some (s', r) \<longrightarrow>
      keys_iff (mapping_of r)
        [(''fields'', truthy (strs_arg fields'))])
   \<and> (\<forall>identifier users owners subgroups name description email_address notify_reviews
      notify_commits use_mailing_list max_results max_scan_rows max_lock_time
      max_open_files max_memory timeout password_timeout s' r.
      dispatched s
        (groups_create sw identifier users owners subgroups name description email_address
          notify_reviews notify_commits use_mailing_list max_results max_scan_rows
          max_lock_time max_open_files max_memory timeout password_timeout s)
      = Some (s', r) \<longrightarrow>
      keys_iff (mapping_of r)
        [(''Users'', truthy (strs_arg users)), (''Owners'', truthy (strs_arg owners)),
         (''Subgroups'', truthy (strs_arg subgroups)),
         (''config[name]'', truthy (str_arg name)),
         (''config[description]'', truthy (str_arg description)),
         (''config[emailAddress]'', truthy (str_arg email_address)),
         (''config[emailFlags][reviews]'', truthy (bool_arg notify_reviews)),
         (''config[emailFlags][commits]'', truthy (bool_arg notify_commits)),
         (''config[useMailingList]'', truthy (bool_arg use_mailing_list)),
         (''MaxResults'', truthy (int_arg max_results)),
         (''MaxScanRows'', truthy (int_arg max_scan_rows)),
         (''MaxLockTime'', truthy (int_arg max_lock_time)),
         (''MaxOpenFiles'', truthy (int_arg max_open_files)),
         (''MaxMemory'', truthy (int_arg max_memory)),
         (''Timeout'', truthy (int_arg timeout)),
         (''PasswordTimeout'', truthy (int_arg password_timeout))])
   \<and> (\<forall>identifier users owners subgroups name description email_address notify_reviews
      notify_commits use_mailing_list s' r.
      dispatched s
        (groups_edit sw identifier users owners subgroups name description email_address
          notify_reviews notify_commits use_mailing_list s)
      = Some (s', r) \<longrightarrow>
      keys_iff (mapping_of r)
        [(''Users'', truthy (strs_arg users)), (''Owners'', truthy (strs_arg owners)),
         (''Subgroups'', truthy (strs_arg subgroups)),
         (''config[name]'', truthy (str_arg name)),
         (''config[description]'', truthy (str_arg description)),
         (''config[emailAddress]'', truthy (str_arg email_address)),
         (''config[emailFlags][reviews]'', truthy (bool_arg notify_reviews)),
         (''config[emailFlags][commits]'', truthy (bool_arg notify_commits)),
         (''config[useMailingList]'', truthy (bool_arg use_mailing_list))])
   \<and> (\<forall>after limit fields' authors changes has_reviewers ids keywords participants
      projects states passes_tests not_updated_since has_voted my_comments s' r.
      dispatched s
        (reviews_get sw after limit fields' authors changes has_reviewers ids keywords participants
          projects states passes_tests not_updated_since has_voted my_comments s)
      = Some (s', r) \<longrightarrow>
      keys_iff (mapping_of r)
        [(''after'', truthy (int_arg after)), (''max'', truthy (int_arg limit)),
         (''fields'', truthy (strs_arg fields')),
         (''author'', truthy (strs_arg authors)),
         (''change'', truthy (ints_arg changes)),
         (''hasReviewers'', has_reviewers \<noteq> None),
         (''ids'', truthy (ints_arg ids)), (''keywords'', truthy (str_arg keywords)),
         (''participants'', truthy (strs_arg participants)),
         (''project'', truthy (strs_arg projects)),
         (''state'', truthy (strs_arg states)),
         (''passesTests'', passes_tests \<noteq> None),
         (''notUpdatedSince'', truthy (str_arg not_updated_since)),
         (''hasVoted'', truthy (str_arg has_voted)),
         (''myComments'', my_comments \<noteq> None)])
   \<and> (\<forall>review_id fields' s' r.
      dispatched s
        (reviews_get_info sw review_id fields' s)
      = Some (s', r) \<longrightarrow>
      keys_iff (mapping_of r)
        [(''fields'', truthy (strs_arg fields'))])
   \<and> (\<forall>review_id up_voters s' r.
      dispatched s
        (reviews_get_transitions sw review_id up_voters s)
      = Some (s', r) \<longrightarrow>
      keys_iff (mapping_of r)
        [(''upVoters'', truthy (str_arg up_voters))])
   \<and> (\<forall>change description reviewers required_reviewers reviewer_groups s' r.
      dispatched s
        (reviews_create sw change description reviewers required_reviewers reviewer_groups s)
      = Some (s', r) \<longrightarrow>
      keys_iff (mapping_of r)
        [(''description'', truthy (str_arg description)),
         (''reviewers'', truthy (strs_arg reviewers)),
         (''requiredReviewers'', truthy (strs_arg required_reviewers)),
         (''reviewerGroups'', truthy (strs_arg reviewer_groups))])
   \<and> (\<forall>review_id reopen s' r.
      dispatched s
        (reviews_cleanup sw review_id reopen s)
      = Some (s', r) \<longrightarrow>
      keys_iff (mapping_of r)
        [(''reopen'', truthy (bool_arg reopen))])
   \<and> (\<forall>after limit fields' keywords.
      (dispatched s
          (groups_get sw after limit fields' keywords s) \<noteq> None)
        = (2 \<le> api_version sw))
   \<and> (\<forall>identifier fields'.
      (dispatched s
          (groups_get_info sw identifier fields' s) \<noteq> None)
        = (2 \<le> api_version sw))
   \<and> (\<forall>identifier users owners subgroups name description email_address notify_reviews
      notify_commits use_mailing_list max_results max_scan_rows max_lock_time
      max_open_files max_memory timeout password_timeout.
      (dispatched s
          (groups_create sw identifier users owners subgroups name description email_address
            notify_reviews notify_commits use_mailing_list max_results max_scan_rows
            max_lock_time max_open_files max_memory timeout password_timeout s) \<noteq> None)
        = (2 \<le> api_version sw
      \<and> \<not> (unset_or_empty users \<and> unset_or_empty owners \<and> unset_or_empty subgroups)))
   \<and> (\<forall>identifier users owners subgroups name description email_address notify_reviews
      notify_commits use_mailing_list.
      (dispatched s
          (groups_edit sw identifier users owners subgroups name description email_address
            notify_reviews notify_commits use_mailing_list s) \<noteq> None)
        = (2 \<le> api_version sw))
   \<and> (\<forall>after limit fields' authors changes has_reviewers ids keywords participants
      projects states passes_tests not_updated_since has_voted my_comments.
      (dispatched s
          (reviews_get sw after limit fields' authors changes has_reviewers ids keywords
            participants projects states passes_tests not_updated_since has_voted
            my_comments s) \<noteq> None)
        = (unset_or_empty authors \<or> 2 \<le> api_version sw))
   \<and> (\<forall>review_id fields'.
      dispatched s
          (reviews_get_info sw review_id fields' s) \<noteq> None)
   \<and> (\<forall>review_id up_voters.
      (dispatched s
          (reviews_get_transitions sw review_id up_voters s) \<noteq> None)
        = (9 \<le> api_version sw))
   \<and> (\<forall>change description reviewers required_reviewers reviewer_groups.
      (dispatched s
          (reviews_create sw change description reviewers required_reviewers reviewer_groups s) \<noteq> None)
        = ((unset_or_empty required_reviewers \<or> api_version sw \<noteq> 1)
      \<and> (unset_or_empty reviewer_groups \<or> 7 \<le> api_version sw)))
   \<and> (\<forall>review_id reopen.
      (dispatched s
          (reviews_cleanup sw review_id reopen s) \<noteq> None)
        = (6 \<le> api_version sw))"
  by (intro conjI allI impI)
     (erule groups_get_sends_keys,
      erule groups_get_info_sends_keys,
      erule groups_create_sends_keys,
      erule groups_edit_sends_keys,
      erule reviews_get_sends_keys,
      erule reviews_get_info_sends_keys,
      erule reviews_get_transitions_sends_keys,
      erule reviews_create_sends_keys,
      erule reviews_cleanup_sends_keys,
      rule groups_get_dispatches,
      rule groups_get_info_dispatches,
      rule groups_create_dispatches,
      rule groups_edit_dispatches,
      rule reviews_get_dispatches,
      rule reviews_get_info_dispatches,
      rule reviews_get_transitions_dispatches,
      rule reviews_create_dispatches,
      rule reviews_cleanup_dispatches)

theorem optional_keys_witness:
  "dispatched []
     (groups_get (swarm_of 2 [2] (0::nat)) (Some ''dev'') (Some 0) None (Some []) [])
   = Some ([], \<lparr>req_method = ''GET'', req_path = ''groups'',
        req_params = Some [(''after'', VStr ''dev'')], req_data = None, req_json = None\<rparr>)
   \<and> keys_iff [(''after'', VStr ''dev'')]
        [(''after'', True), (''max'', False), (''fields'', False), (''keywords'', False)]"
proof -
  have h: "dispatched []
     (groups_get (swarm_of 2 [2] (0::nat)) (Some ''dev'') (Some 0) None (Some []) [])
   = Some ([], \<lparr>req_method = ''GET'', req_path = ''groups'',
        req_params = Some [(''after'', VStr ''dev'')], req_data = None, req_json = None\<rparr>)"
    by (simp add: groups_get_run groups_get_params_def Let_def run_defs)
  from optional_keys [THEN conjunct1, rule_format, OF h] h show ?thesis
    by (simp add: mapping_of_def arg_defs)
qed

end
